theory Spec2Isabelle
  imports Main "HOL-Library.AList"
begin

text \<open>
  A model of the Typed Eva type checker (\<open>src/EvaTC.js\<close>, \<open>src/Type.js\<close>): the
  type objects and their structural equality, the registry of types kept on the \<open>Type\<close>
  constructor, the scope chain, and the checking function \<open>tc\<close>, followed by the
  properties proved of them.
\<close>

section \<open>Expression trees and JavaScript values\<close>

text \<open>
  The checker receives an already parsed tree of native JavaScript values: numbers,
  booleans, strings (string literals keep their quote marks, every other token is a
  bare string) and arrays. Numeric literals are modelled as integers; the checker
  never looks at their value, only at the fact that they are numbers.
  \<open>Undefined\<close> is JavaScript's \<open>undefined\<close>, the result of reading past the end
  of an array or string; the parser never produces it, but the checker's own index and
  destructuring reads do.
\<close>

datatype exp = Undefined | Num int | Bool bool | Str string | Arr "exp list"

type_synonym addr = nat

text \<open>
  The type hierarchy of \<open>Type.js\<close>. Every object carries its \<open>name\<close> field.
  \<open>Class\<close> and \<open>Union\<close> objects are compared by reference in the source
  (\<open>this === other\<close>), so they carry an object identity, drawn from a counter when
  they are constructed. A class refers to its own scope, and a generic function to its
  closure scope, by the address of the scope in the store of scopes.
\<close>

datatype ty =
    Prim string
  | Function string "ty list" ty
  | Alias string ty
  | Class nat string ty addr
  | Union nat string "ty list"
  | GenericFunction string "string list" exp exp exp addr

datatype error =
    UnknownType
  | UnknownFunctionType
  | DuplicateType
  | UnknownClass
  | TypeMismatch
  | ReturnTypeMismatch
  | OperandMismatch
  | OperandCount
  | UnknownOperator
  | NoActualTypes
  | UnknownExpression
  | UnboundName
  | JSTypeError
  | JSReferenceError
  | Unmodelled

subsection \<open>Names\<close>

fun getName :: "ty \<Rightarrow> string" where
  "getName (Prim n) = n"
| "getName (Function n ps r) = n"
| "getName (Alias n p) = n"
| "getName (Class i n s e) = n"
| "getName (Union i n os) = n"
| "getName (GenericFunction n gs ps r b e) = n"

fun join :: "string \<Rightarrow> string list \<Rightarrow> string" where
  "join sep [] = []"
| "join sep [x] = x"
| "join sep (x # y # ys) = x @ sep @ join sep (y # ys)"

text \<open>\<open>Type.Function.getName\<close>: \<open>Fn<ret>\<close> or \<open>Fn<ret<p1,p2,...>>\<close>.\<close>

definition functionName :: "ty list \<Rightarrow> ty \<Rightarrow> string" where
  "functionName paramTypes returnType =
     ''Fn<'' @ getName returnType
       @ (if length paramTypes \<noteq> 0 then ''<'' @ join '','' (map getName paramTypes) @ ''>'' else [])
       @ ''>''"

text \<open>\<open>new Type.Function({name = null, paramTypes, returnType})\<close>.\<close>

definition newFunction :: "string option \<Rightarrow> ty list \<Rightarrow> ty \<Rightarrow> ty" where
  "newFunction name paramTypes returnType =
     Function (case name of None \<Rightarrow> functionName paramTypes returnType | Some n \<Rightarrow> n)
       paramTypes returnType"

subsection \<open>Structural equality\<close>

text \<open>
  \<open>Array.prototype.some\<close> and the early-exit \<open>for\<close> loops of the source, over a
  test that may throw: the first exception stops the iteration.
\<close>

fun someM :: "('a \<Rightarrow> error + bool) \<Rightarrow> 'a list \<Rightarrow> error + bool" where
  "someM f [] = Inr False"
| "someM f (x # xs) =
     (case f x of Inl e \<Rightarrow> Inl e | Inr b \<Rightarrow> if b then Inr True else someM f xs)"

fun everyM :: "('a \<Rightarrow> error + bool) \<Rightarrow> 'a list \<Rightarrow> error + bool" where
  "everyM f [] = Inr True"
| "everyM f (x # xs) =
     (case f x of Inl e \<Rightarrow> Inl e | Inr b \<Rightarrow> if b then everyM f xs else Inr False)"

lemma someM_cong [fundef_cong]:
  "xs = ys \<Longrightarrow> (\<And>x. x \<in> set ys \<Longrightarrow> f x = g x) \<Longrightarrow> someM f xs = someM g ys"
  by (induction ys arbitrary: xs) (auto split: sum.splits)

lemma everyM_cong [fundef_cong]:
  "xs = ys \<Longrightarrow> (\<And>x. x \<in> set ys \<Longrightarrow> f x = g x) \<Longrightarrow> everyM f xs = everyM g ys"
  by (induction ys arbitrary: xs) (auto split: sum.splits)

fun isAlias :: "ty option \<Rightarrow> bool" where
  "isAlias (Some (Alias n p)) = True"
| "isAlias _ = False"

fun isUnion :: "ty option \<Rightarrow> bool" where
  "isUnion (Some (Union i n os)) = True"
| "isUnion _ = False"

text \<open>
  \<open>equals tnull this other\<close> is \<open>this.equals(other)\<close>, dispatched on the class of
  \<open>this\<close> as JavaScript does: \<open>Type.equals\<close> for primitives and generic functions
  (which do not override it), and the overriding methods of \<open>Type.Function\<close>,
  \<open>Type.Alias\<close>, \<open>Type.Class\<close> and \<open>Type.Union\<close>. \<open>other\<close> may be
  \<open>undefined\<close> (\<open>None\<close>). \<open>tnull\<close> is the current value of \<open>Type.null\<close>,
  which \<open>Type.Class.equals\<close> reads. Reading a property of \<open>undefined\<close> throws a
  \<open>TypeError\<close>, and so does \<open>other.paramTypes.length\<close> when \<open>other\<close> is not a
  function type.
\<close>

function equals :: "ty option \<Rightarrow> ty \<Rightarrow> ty option \<Rightarrow> error + bool" where
  "equals tnull (Prim n) other =
     (case other of
        None \<Rightarrow> Inl JSTypeError
      | Some ot \<Rightarrow>
          if isAlias other then equals tnull ot (Some (Prim n))
          else if isUnion other then equals tnull ot (Some (Prim n))
          else Inr (n = getName ot))"
| "equals tnull (GenericFunction n gs ps r b e) other =
     (case other of
        None \<Rightarrow> Inl JSTypeError
      | Some ot \<Rightarrow>
          if isAlias other then equals tnull ot (Some (GenericFunction n gs ps r b e))
          else if isUnion other then equals tnull ot (Some (GenericFunction n gs ps r b e))
          else Inr (n = getName ot))"
| "equals tnull (Function n ps r) other =
     (case other of
        Some (Function n' ps' r') \<Rightarrow>
          if length ps \<noteq> length ps' then Inr False
          else (case everyM (\<lambda>(p, q). equals tnull p (Some q)) (zip ps ps') of
                  Inl e \<Rightarrow> Inl e
                | Inr b \<Rightarrow> if b then equals tnull r (Some r') else Inr False)
      | _ \<Rightarrow> Inl JSTypeError)"
| "equals tnull (Alias n p) other =
     (case other of
        None \<Rightarrow> Inl JSTypeError
      | Some ot \<Rightarrow> if n = getName ot then Inr True else equals tnull p other)"
| "equals tnull (Class i n s e) other =
     (if other = Some (Class i n s e) then Inr True
      else (case other of
              Some (Alias n' p') \<Rightarrow> equals tnull (Alias n' p') (Some (Class i n s e))
            | _ \<Rightarrow> if Some s \<noteq> tnull then equals tnull s other else Inr False))"
| "equals tnull (Union i n os) other =
     (if other = Some (Union i n os) then Inr True
      else (case other of
              Some (Alias n' p') \<Rightarrow> equals tnull (Alias n' p') (Some (Union i n os))
            | Some (Union i' n' os') \<Rightarrow>
                if length os' \<noteq> length os then Inr False
                else everyM (\<lambda>t. equals tnull (Union i n os) (Some t)) os'
            | _ \<Rightarrow> someM (\<lambda>t. equals tnull t other) os))"
  by pat_completeness auto

text \<open>
  Termination: every call makes one of the two types smaller, except the calls that hand
  the comparison over to \<open>other\<close> (an alias, or a union met by a primitive); after
  such a swap the receiver is an alias or a union, which never swaps back.
\<close>

fun needsSwap :: "ty \<Rightarrow> ty option \<Rightarrow> nat" where
  "needsSwap (Prim n) other = (if isAlias other \<or> isUnion other then 1 else 0)"
| "needsSwap (GenericFunction n gs ps r b e) other = (if isAlias other \<or> isUnion other then 1 else 0)"
| "needsSwap (Class i n s e) other = (if isAlias other then 1 else 0)"
| "needsSwap (Union i n os) other = (if isAlias other then 1 else 0)"
| "needsSwap _ other = 0"

fun osize :: "ty option \<Rightarrow> nat" where
  "osize None = 0"
| "osize (Some t) = size t"

lemma size_mem: "t \<in> set ts \<Longrightarrow> size t < Suc (size_list size ts)"
  by (induction ts) auto

lemma isAlias_cases: "isAlias x \<Longrightarrow> \<exists>n p. x = Some (Alias n p)"
  by (cases x rule: isAlias.cases) auto

lemma isUnion_cases: "isUnion x \<Longrightarrow> \<exists>i n p. x = Some (Union i n p)"
  by (cases x rule: isUnion.cases) auto

lemma needsSwap_le: "needsSwap a b \<le> Suc 0"
  by (cases a) auto

lemma needsSwap_less: "needsSwap a b < 2" "needsSwap a b < 4 + k"
  using needsSwap_le [of a b] by simp_all

lemma zip_size_bound:
  "(a, b) \<in> set (zip ps qs) \<Longrightarrow>
     2 * size a + 2 * size b + needsSwap a (Some b)
       < Suc (Suc (Suc (Suc (2 * size_list size ps + k + (2 * size_list size qs + l)))))"
proof -
  assume "(a, b) \<in> set (zip ps qs)"
  then have "a \<in> set ps" and "b \<in> set qs"
    by (auto dest: set_zip_leftD set_zip_rightD)
  then show ?thesis
    using size_mem [of a ps] size_mem [of b qs] needsSwap_le [of a "Some b"] by simp
qed

lemma size_mem_swap:
  "x \<in> set os \<Longrightarrow> 2 * size x + needsSwap x other < Suc (Suc (2 * size_list size os))"
  using size_mem [of x os] needsSwap_le [of x other] by simp

lemma size_mem_alias: "Alias na p \<in> set os \<Longrightarrow> Suc (2 * size p) < 2 * size_list size os"
  using size_mem [of "Alias na p" os] by simp

lemma size_mem_twice: "x \<in> set os \<Longrightarrow> 2 * size x < Suc (Suc (2 * size_list size os))"
  using size_mem [of x os] by simp

termination equals
  apply (relation "measure (\<lambda>(tnull, this, other). 2 * (size this + osize other) + needsSwap this other)")
  apply (auto dest!: isAlias_cases isUnion_cases
      simp: zip_size_bound needsSwap_less size_mem_swap size_mem_alias size_mem_twice)
  done

text \<open>
  \<open>Type.Union.includesAll\<close>; the method exists on unions only, so a call on any other
  receiver is a \<open>TypeError\<close>.
\<close>

fun includesAll :: "ty option \<Rightarrow> ty \<Rightarrow> ty option list \<Rightarrow> error + bool" where
  "includesAll tnull (Union i n os) types =
     (if length types \<noteq> length os then Inr False
      else everyM (\<lambda>t. equals tnull (Union i n os) t) types)"
| "includesAll tnull _ types = Inl JSTypeError"


section \<open>Reading JavaScript values\<close>

fun showNat :: "nat \<Rightarrow> string" where
  "showNat n = (if n < 10 then [''0123456789'' ! n] else showNat (n div 10) @ [''0123456789'' ! (n mod 10)])"

definition showInt :: "int \<Rightarrow> string" where
  "showInt i = (if i < 0 then CHR ''-'' # showNat (nat (- i)) else showNat (nat i))"

text \<open>
  \<open>jsString\<close> is JavaScript's string conversion, applied by the regular-expression
  tests and by every property access with a computed key. An array is the comma-joined
  conversion of its elements, where an \<open>undefined\<close> element contributes nothing.
\<close>

fun jsString :: "exp \<Rightarrow> string" where
  "jsString Undefined = ''undefined''"
| "jsString (Num i) = showInt i"
| "jsString (Bool b) = (if b then ''true'' else ''false'')"
| "jsString (Str s) = s"
| "jsString (Arr xs) = join '','' (map (\<lambda>x. if x = Undefined then [] else jsString x) xs)"

text \<open>\<open>v[i]\<close> on a value that is not \<open>undefined\<close>.\<close>

fun idx :: "exp \<Rightarrow> nat \<Rightarrow> exp" where
  "idx (Arr xs) i = (if i < length xs then xs ! i else Undefined)"
| "idx (Str s) i = (if i < length s then Str [s ! i] else Undefined)"
| "idx _ i = Undefined"

text \<open>\<open>v[0]\<close> on a value that may be \<open>undefined\<close>: then a \<open>TypeError\<close>.\<close>

definition first :: "exp \<Rightarrow> error + exp" where
  "first v = (if v = Undefined then Inl JSTypeError else Inr (idx v 0))"

text \<open>\<open>v.length\<close>: numbers and booleans have none.\<close>

fun jsLength :: "exp \<Rightarrow> nat option" where
  "jsLength (Arr xs) = Some (length xs)"
| "jsLength (Str s) = Some (length s)"
| "jsLength _ = None"

text \<open>
  Array destructuring \<open>const [a, b, c] = v\<close> iterates \<open>v\<close>: the elements of an array,
  the characters of a string; any other value is not iterable (\<open>TypeError\<close>).
\<close>

fun elems :: "exp \<Rightarrow> error + exp list" where
  "elems (Arr xs) = Inr xs"
| "elems (Str s) = Inr (map (\<lambda>c. Str [c]) s)"
| "elems _ = Inl JSTypeError"

definition nthU :: "exp list \<Rightarrow> nat \<Rightarrow> exp" where
  "nthU xs i = (if i < length xs then xs ! i else Undefined)"

text \<open>\<open>v.map(...)\<close>, \<open>v.forEach(...)\<close>: only arrays have these methods.\<close>

fun arrayOf :: "exp \<Rightarrow> error + exp list" where
  "arrayOf (Arr xs) = Inr xs"
| "arrayOf _ = Inl JSTypeError"

text \<open>\<open>v.slice(1, -1)\<close>: strings and arrays have the method.\<close>

fun sliceInner :: "exp \<Rightarrow> error + exp" where
  "sliceInner (Str s) = Inr (Str (butlast (drop 1 s)))"
| "sliceInner (Arr xs) = Inr (Arr (butlast (drop 1 xs)))"
| "sliceInner _ = Inl JSTypeError"

subsection \<open>The regular expressions of the source\<close>

definition startsWith :: "string \<Rightarrow> string \<Rightarrow> bool" where
  "startsWith s p = (take (length p) s = p)"

definition endsWith :: "string \<Rightarrow> string \<Rightarrow> bool" where
  "endsWith s p = (length p \<le> length s \<and> drop (length s - length p) s = p)"

text \<open>\<open>/^<[^>]+>$/\<close>\<close>

definition bracketed :: "string \<Rightarrow> bool" where
  "bracketed s =
     (3 \<le> length s \<and> hd s = CHR ''<'' \<and> last s = CHR ''>''
        \<and> CHR ''>'' \<notin> set (butlast (drop 1 s)))"

text \<open>\<open>/^[+\-*/]$/\<close>\<close>

definition operatorToken :: "string \<Rightarrow> bool" where
  "operatorToken s = (s = ''+'' \<or> s = ''-'' \<or> s = ''*'' \<or> s = ''/'')"

text \<open>\<open>/^[+\-*/<>=a-zA-Z0-9_:]+$/\<close>\<close>

definition nameChar :: "char \<Rightarrow> bool" where
  "nameChar c =
     (c \<in> set ''+-*/<>=_:'' \<or> c \<in> set ''abcdefghijklmnopqrstuvwxyz''
        \<or> c \<in> set ''ABCDEFGHIJKLMNOPQRSTUVWXYZ'' \<or> c \<in> set ''0123456789'')"

text \<open>\<open>\w\<close>, \<open>[a-z,\s]\<close> and \<open>\s\<close> (on the characters a \<open>char\<close> can hold).\<close>

definition wordChar :: "char \<Rightarrow> bool" where
  "wordChar c =
     (c = CHR ''_'' \<or> c \<in> set ''abcdefghijklmnopqrstuvwxyz''
        \<or> c \<in> set ''ABCDEFGHIJKLMNOPQRSTUVWXYZ'' \<or> c \<in> set ''0123456789'')"

definition spaceChar :: "char \<Rightarrow> bool" where
  "spaceChar c = (c \<in> set [CHR 0x09, CHR 0x0A, CHR 0x0B, CHR 0x0C, CHR 0x0D, CHR 0x20, CHR 0xA0])"

definition paramsChar :: "char \<Rightarrow> bool" where
  "paramsChar c = (c \<in> set ''abcdefghijklmnopqrstuvwxyz'' \<or> c = CHR '','' \<or> spaceChar c)"

text \<open>
  \<open>/^Fn<(\w+)<([a-z,\s]+)>>$/\<close>: the two groups, when the string matches. The first
  group is followed by \<open><\<close>, which is no word character, so it is the longest run of
  word characters after \<open>Fn<\<close>.
\<close>

definition matchFnParams :: "string \<Rightarrow> (string \<times> string) option" where
  "matchFnParams s =
     (if \<not> startsWith s ''Fn<'' then None
      else let rest = drop 3 s;
               r = takeWhile wordChar rest;
               after = dropWhile wordChar rest
           in if r = [] \<or> \<not> startsWith after ''<'' \<or> \<not> endsWith (drop 1 after) ''>>'' then None
              else let ps = take (length after - 3) (drop 1 after)
                   in if ps \<noteq> [] \<and> list_all paramsChar ps then Some (r, ps) else None)"

text \<open>\<open>/^Fn<(\w+)>$/\<close>\<close>

definition matchFnReturn :: "string \<Rightarrow> string option" where
  "matchFnReturn s =
     (if \<not> startsWith s ''Fn<'' then None
      else let rest = drop 3 s;
               r = takeWhile wordChar rest
           in if r \<noteq> [] \<and> dropWhile wordChar rest = ''>'' then Some r else None)"

text \<open>\<open>s.split(',')\<close>\<close>

fun splitComma :: "string \<Rightarrow> string list" where
  "splitComma [] = [[]]"
| "splitComma (c # cs) =
     (if c = CHR '','' then [] # splitComma cs
      else (case splitComma cs of [] \<Rightarrow> [[c]] | p # ps \<Rightarrow> (c # p) # ps))"

text \<open>\<open>s.split(/,\s*/g)\<close>: a comma swallows the white space that follows it.\<close>

function splitCommaSpace :: "string \<Rightarrow> string list" where
  "splitCommaSpace [] = [[]]"
| "splitCommaSpace (c # cs) =
     (if c = CHR '','' then [] # splitCommaSpace (dropWhile spaceChar cs)
      else (case splitCommaSpace cs of [] \<Rightarrow> [[c]] | p # ps \<Rightarrow> (c # p) # ps))"
  by pat_completeness auto
termination
  by (relation "measure length") (auto simp: length_dropWhile_le less_Suc_eq_le)


section \<open>The checker's state\<close>

text \<open>
  \<open>registry\<close> holds the properties that the program adds to the \<open>Type\<close> constructor
  (\<open>Type.number\<close>, ..., declared names, cached function types). \<open>scopes\<close> is the store
  of \<open>TypeEnvironment\<close> objects, addressed by position; \<open>nextId\<close> numbers the class
  and union objects.
\<close>

record scope =
  bindings :: "(string \<times> ty option) list"
  parent :: "addr option"

record state =
  registry :: "(string \<times> ty) list"
  scopes :: "scope list"
  nextId :: nat

text \<open>
  A computation of the checker: it returns a value or throws, and leaves a state either
  way (a thrown exception does not undo earlier mutations). \<open>Timeout\<close> is the fuel of
  \<open>tc\<close> running out.
\<close>

datatype 'a outcome = Ret 'a | Throw error | Timeout

type_synonym 'a M = "state \<Rightarrow> 'a outcome \<times> state"

definition ret :: "'a \<Rightarrow> 'a M" where
  "ret x = (\<lambda>s. (Ret x, s))"

definition throw :: "error \<Rightarrow> 'a M" where
  "throw e = (\<lambda>s. (Throw e, s))"

definition timeout :: "'a M" where
  "timeout = (\<lambda>s. (Timeout, s))"

definition bnd :: "'a M \<Rightarrow> ('a \<Rightarrow> 'b M) \<Rightarrow> 'b M" where
  "bnd m f = (\<lambda>s. case m s of
                     (Ret x, s') \<Rightarrow> f x s'
                   | (Throw e, s') \<Rightarrow> (Throw e, s')
                   | (Timeout, s') \<Rightarrow> (Timeout, s'))"

definition lift :: "error + 'a \<Rightarrow> 'a M" where
  "lift r = (case r of Inl e \<Rightarrow> throw e | Inr x \<Rightarrow> ret x)"

fun mapM :: "('a \<Rightarrow> 'b M) \<Rightarrow> 'a list \<Rightarrow> 'b list M" where
  "mapM f [] = ret []"
| "mapM f (x # xs) = bnd (f x) (\<lambda>y. bnd (mapM f xs) (\<lambda>ys. ret (y # ys)))"

subsection \<open>The properties of the \<open>Type\<close> constructor\<close>

text \<open>
  \<open>Type\<close> is a JavaScript class, so besides the types stored on it, it has properties
  of its own (\<open>ownBuiltins\<close>) and inherits others from \<open>Function.prototype\<close> and
  \<open>Object.prototype\<close> (\<open>inheritedBuiltins\<close>). Their values are not type objects. The
  model keeps \<open>hasOwnProperty\<close> exact for them, and stops with \<open>Unmodelled\<close> where the
  checker would read or overwrite one of them.
\<close>

definition ownBuiltins :: "string list" where
  "ownBuiltins = [''length'', ''name'', ''prototype'', ''fromString'',
     ''Function'', ''Alias'', ''Class'', ''Union'', ''GenericFunction'']"

definition inheritedBuiltins :: "string list" where
  "inheritedBuiltins = [''constructor'', ''apply'', ''bind'', ''call'', ''toString'',
     ''arguments'', ''caller'', ''hasOwnProperty'', ''isPrototypeOf'',
     ''propertyIsEnumerable'', ''toLocaleString'', ''valueOf'', ''__proto__'',
     ''__defineGetter__'', ''__defineSetter__'', ''__lookupGetter__'', ''__lookupSetter__'']"

definition builtinKey :: "string \<Rightarrow> bool" where
  "builtinKey k = (k \<in> set ownBuiltins \<or> k \<in> set inheritedBuiltins)"

text \<open>\<open>Type.hasOwnProperty(k)\<close>\<close>

definition typeHasOwnProperty :: "string \<Rightarrow> state \<Rightarrow> bool" where
  "typeHasOwnProperty k s = (map_of (registry s) k \<noteq> None \<or> k \<in> set ownBuiltins)"

text \<open>\<open>Type.number\<close>, \<open>Type.null\<close>, ...: a read of a fixed property.\<close>

definition typeProp :: "string \<Rightarrow> state \<Rightarrow> ty option" where
  "typeProp k s = map_of (registry s) k"

text \<open>\<open>Type[k]\<close> with a computed key.\<close>

definition typeGet :: "string \<Rightarrow> ty option M" where
  "typeGet k = (\<lambda>s. case map_of (registry s) k of
                       Some t \<Rightarrow> (Ret (Some t), s)
                     | None \<Rightarrow> if builtinKey k then (Throw Unmodelled, s) else (Ret None, s))"

text \<open>\<open>Type[k] = t\<close>\<close>

definition typeSet :: "string \<Rightarrow> ty \<Rightarrow> unit M" where
  "typeSet k t = (\<lambda>s. if builtinKey k then (Throw Unmodelled, s)
                       else (Ret (), s\<lparr>registry := AList.update k t (registry s)\<rparr>))"

subsection \<open>Type environments\<close>

text \<open>
  Modelled from the spec: \<open>TypeEnvironment.js\<close> is required by both source files but is
  not among them. The spec describes it as a parent-linked scope: \<open>new TypeEnvironment(record,
  parent)\<close> returns a new scope with the given bindings, parented to \<open>parent\<close>.
\<close>

definition newEnv :: "(string \<times> ty option) list \<Rightarrow> addr option \<Rightarrow> addr M" where
  "newEnv record par =
     (\<lambda>s. (Ret (length (scopes s)), s\<lparr>scopes := scopes s @ [\<lparr>bindings = record, parent = par\<rparr>]\<rparr>))"

text \<open>
  Modelled from the spec: \<open>define(name, type) -> type\<close> always succeeds and inserts or
  overwrites the binding in the current scope only. (An address outside the store does
  not arise; the model stops there.)
\<close>

definition defineName :: "addr \<Rightarrow> string \<Rightarrow> ty option \<Rightarrow> ty option M" where
  "defineName a name t =
     (\<lambda>s. if a < length (scopes s)
           then (Ret t, s\<lparr>scopes := (scopes s)
                   [a := (scopes s ! a)\<lparr>bindings := AList.update name t (bindings (scopes s ! a))\<rparr>]\<rparr>)
           else (Throw Unmodelled, s))"

text \<open>
  Modelled from the spec: \<open>lookup(name)\<close> searches the current scope, then each parent in
  turn, and fails with UnboundName if the name is absent everywhere. A parent is always an
  older scope than its child, which the recursion relies on.
\<close>

function lookupIn :: "scope list \<Rightarrow> addr \<Rightarrow> string \<Rightarrow> error + ty option" where
  "lookupIn sc a name =
     (if a < length sc
      then (case map_of (bindings (sc ! a)) name of
              Some t \<Rightarrow> Inr t
            | None \<Rightarrow>
                (case parent (sc ! a) of
                   None \<Rightarrow> Inl UnboundName
                 | Some p \<Rightarrow> if p < a then lookupIn sc p name else Inl Unmodelled))
      else Inl Unmodelled)"
  by pat_completeness auto
termination
  by (relation "measure (\<lambda>(sc, a, name). a)") auto

definition lookup :: "addr \<Rightarrow> string \<Rightarrow> ty option M" where
  "lookup a name = (\<lambda>s. lift (lookupIn (scopes s) a name) s)"

subsection \<open>Resolving type descriptors\<close>

text \<open>
  A descriptor nested in a function descriptor is matched by \<open>\w+\<close> or is a piece of
  \<open>[a-z,\s]+\<close>, so it never starts with \<open>Fn<\<close>: for it \<open>Type.fromString\<close> is a
  registry read or a failure, and never comes back to \<open>Type.Function.fromString\<close>.
\<close>

definition fromStringNested :: "string \<Rightarrow> ty M" where
  "fromStringNested typeStr =
     (\<lambda>s. if typeHasOwnProperty typeStr s
           then (case map_of (registry s) typeStr of
                   Some t \<Rightarrow> (Ret t, s)
                 | None \<Rightarrow> (Throw Unmodelled, s))
           else (Throw UnknownType, s))"

text \<open>\<open>Type.Function.fromString\<close>, reached with a string that is no own property of \<open>Type\<close>.\<close>

definition functionFromString :: "string \<Rightarrow> ty M" where
  "functionFromString typeStr =
     (case matchFnParams typeStr of
        Some (returnTypeStr, paramsStr) \<Rightarrow>
          bnd (mapM fromStringNested (splitCommaSpace paramsStr)) (\<lambda>paramTypes.
          bnd (fromStringNested returnTypeStr) (\<lambda>returnType.
          bnd (typeSet typeStr (newFunction (Some typeStr) paramTypes returnType)) (\<lambda>_.
          ret (newFunction (Some typeStr) paramTypes returnType))))
      | None \<Rightarrow>
          (case matchFnReturn typeStr of
             Some returnTypeStr \<Rightarrow>
               bnd (fromStringNested returnTypeStr) (\<lambda>returnType.
               bnd (typeSet typeStr (newFunction (Some typeStr) [] returnType)) (\<lambda>_.
               ret (newFunction (Some typeStr) [] returnType)))
           | None \<Rightarrow> throw UnknownFunctionType))"

text \<open>
  \<open>Type.fromString\<close>. The argument is whatever the tree holds at that place:
  \<open>hasOwnProperty\<close> converts it to a string, \<open>startsWith\<close> exists on strings only.
\<close>

definition fromString :: "exp \<Rightarrow> ty M" where
  "fromString typeStr =
     (\<lambda>s. if typeHasOwnProperty (jsString typeStr) s
           then (case map_of (registry s) (jsString typeStr) of
                   Some t \<Rightarrow> (Ret t, s)
                 | None \<Rightarrow> (Throw Unmodelled, s))
           else (case typeStr of
                   Str str \<Rightarrow> if startsWith str ''Fn<'' then functionFromString str s
                              else (Throw UnknownType, s)
                 | _ \<Rightarrow> (Throw JSTypeError, s)))"


section \<open>The checker\<close>

subsection \<open>Shape tests\<close>

definition isNumber :: "exp \<Rightarrow> bool" where
  "isNumber exp = (case exp of Num i \<Rightarrow> True | _ \<Rightarrow> False)"

definition isString :: "exp \<Rightarrow> bool" where
  "isString exp = (case exp of Str s \<Rightarrow> s \<noteq> [] \<and> hd s = CHR 0x22 \<and> last s = CHR 0x22 | _ \<Rightarrow> False)"

definition isBoolean :: "exp \<Rightarrow> bool" where
  "isBoolean exp = (case exp of Bool b \<Rightarrow> True | Str s \<Rightarrow> s = ''true'' \<or> s = ''false'' | _ \<Rightarrow> False)"

definition isBinary :: "exp \<Rightarrow> bool" where
  "isBinary exp = operatorToken (jsString (idx exp 0))"

definition isBooleanBinary :: "exp \<Rightarrow> bool" where
  "isBooleanBinary exp =
     (idx exp 0 = Str ''=='' \<or> idx exp 0 = Str ''!='' \<or> idx exp 0 = Str ''>='' \<or>
      idx exp 0 = Str ''<='' \<or> idx exp 0 = Str ''>'' \<or> idx exp 0 = Str ''<'')"

definition isVariableName :: "exp \<Rightarrow> bool" where
  "isVariableName exp = (case exp of Str s \<Rightarrow> s \<noteq> [] \<and> list_all nameChar s | _ \<Rightarrow> False)"

definition isGenericLambdaFunction :: "exp \<Rightarrow> bool" where
  "isGenericLambdaFunction exp = (jsLength exp = Some 6 \<and> bracketed (jsString (idx exp 1)))"

definition isGenericDefFunction :: "exp \<Rightarrow> bool" where
  "isGenericDefFunction exp = (jsLength exp = Some 7 \<and> bracketed (jsString (idx exp 2)))"

subsection \<open>Expecting types\<close>

text \<open>\<open>Type.number\<close> and its like, read when the checker needs them.\<close>

definition typeConst :: "string \<Rightarrow> ty option M" where
  "typeConst k = (\<lambda>s. (Ret (typeProp k s), s))"

definition equalsM :: "ty \<Rightarrow> ty option \<Rightarrow> bool M" where
  "equalsM this other = (\<lambda>s. lift (equals (typeProp ''null'' s) this other) s)"

text \<open>\<open>_expect\<close> (with \<open>_throw\<close>): calling \<open>equals\<close> on \<open>undefined\<close> is a \<open>TypeError\<close>.\<close>

definition expect :: "ty option \<Rightarrow> ty option \<Rightarrow> ty option M" where
  "expect actualType expectedType =
     (case actualType of
        None \<Rightarrow> throw JSTypeError
      | Some a \<Rightarrow> bnd (equalsM a expectedType) (\<lambda>ok.
          if ok then ret actualType else throw TypeMismatch))"

definition checkArity :: "exp \<Rightarrow> nat \<Rightarrow> unit M" where
  "checkArity exp arity =
     (case jsLength exp of
        None \<Rightarrow> throw OperandCount
      | Some l \<Rightarrow> if int l - 1 \<noteq> int arity then throw OperandCount else ret ())"

definition getOperandTypesForOperator :: "exp \<Rightarrow> ty option list M" where
  "getOperandTypesForOperator operator =
     (\<lambda>s. if operator = Str ''+'' then (Ret [typeProp ''string'' s, typeProp ''number'' s], s)
           else if operator = Str ''-'' then (Ret [typeProp ''number'' s], s)
           else if operator = Str ''/'' then (Ret [typeProp ''number'' s], s)
           else if operator = Str ''*'' then (Ret [typeProp ''number'' s], s)
           else (Throw UnknownOperator, s))"

text \<open>
  The test of \<open>_expectOperatorType\<close>: a union operand is asked whether it
  \<open>includesAll\<close> the allowed types; any other operand must equal some allowed type.
\<close>

fun operatorTypeOk :: "ty option \<Rightarrow> ty option \<Rightarrow> ty option list \<Rightarrow> error + bool" where
  "operatorTypeOk tnull (Some (Union i n os)) allowedTypes =
     includesAll tnull (Union i n os) allowedTypes"
| "operatorTypeOk tnull operandType allowedTypes =
     someM (\<lambda>t. case t of None \<Rightarrow> Inl JSTypeError | Some t' \<Rightarrow> equals tnull t' operandType) allowedTypes"

definition expectOperatorType :: "ty option \<Rightarrow> ty option list \<Rightarrow> unit M" where
  "expectOperatorType operandType allowedTypes =
     bnd (\<lambda>s. lift (operatorTypeOk (typeProp ''null'' s) operandType allowedTypes) s) (\<lambda>ok.
     if ok then ret () else throw OperandMismatch)"

subsection \<open>Operators\<close>

text \<open>
  Every function below that checks subexpressions takes the checker to use on them,
  \<open>tcr\<close>, as its first argument; \<open>tc\<close> passes itself.
\<close>

definition binary :: "(exp \<Rightarrow> addr \<Rightarrow> ty option M) \<Rightarrow> exp \<Rightarrow> addr \<Rightarrow> ty option M" where
  "binary tcr exp env =
     bnd (checkArity exp 2) (\<lambda>_.
     bnd (tcr (idx exp 1) env) (\<lambda>t1.
     bnd (tcr (idx exp 2) env) (\<lambda>t2.
     bnd (getOperandTypesForOperator (idx exp 0)) (\<lambda>allowedTypes.
     bnd (expectOperatorType t1 allowedTypes) (\<lambda>_.
     bnd (expectOperatorType t2 allowedTypes) (\<lambda>_.
     expect t2 t1))))))"

definition booleanBinary :: "(exp \<Rightarrow> addr \<Rightarrow> ty option M) \<Rightarrow> exp \<Rightarrow> addr \<Rightarrow> ty option M" where
  "booleanBinary tcr exp env =
     bnd (checkArity exp 2) (\<lambda>_.
     bnd (tcr (idx exp 1) env) (\<lambda>t1.
     bnd (tcr (idx exp 2) env) (\<lambda>t2.
     bnd (expect t2 t1) (\<lambda>_.
     typeConst ''boolean''))))"

subsection \<open>Blocks and bodies\<close>

fun blockLoop :: "(exp \<Rightarrow> ty option M) \<Rightarrow> ty option \<Rightarrow> exp list \<Rightarrow> ty option M" where
  "blockLoop f result [] = ret result"
| "blockLoop f result (e # es) = bnd (f e) (\<lambda>r. blockLoop f r es)"

text \<open>\<open>_tcBlock\<close>: \<open>result\<close> starts out \<open>undefined\<close> and holds the last type checked.\<close>

definition tcBlock :: "(exp \<Rightarrow> addr \<Rightarrow> ty option M) \<Rightarrow> exp \<Rightarrow> addr \<Rightarrow> ty option M" where
  "tcBlock tcr block env =
     bnd (lift (elems block)) (\<lambda>es.
     blockLoop (\<lambda>e. tcr e env) None (drop 1 es))"

definition tcBody :: "(exp \<Rightarrow> addr \<Rightarrow> ty option M) \<Rightarrow> exp \<Rightarrow> addr \<Rightarrow> ty option M" where
  "tcBody tcr body env =
     bnd (lift (first body)) (\<lambda>h.
     if h = Str ''begin'' then tcBlock tcr body env else tcr body env)"

subsection \<open>Functions\<close>

text \<open>One round of the \<open>forEach\<close> in \<open>_tcFunction\<close>: the key of the record and the type.\<close>

definition paramEntry :: "exp \<Rightarrow> (string \<times> ty) M" where
  "paramEntry p =
     bnd (lift (elems p)) (\<lambda>es.
     bnd (fromString (nthU es 1)) (\<lambda>paramType.
     ret (jsString (nthU es 0), paramType)))"

definition paramsRecord :: "(string \<times> ty) list \<Rightarrow> (string \<times> ty option) list" where
  "paramsRecord entries = fold (\<lambda>(k, t) r. AList.update k (Some t) r) entries []"

definition tcFunction ::
  "(exp \<Rightarrow> addr \<Rightarrow> ty option M) \<Rightarrow> exp \<Rightarrow> exp \<Rightarrow> exp \<Rightarrow> addr \<Rightarrow> ty option M" where
  "tcFunction tcr params returnTypeStr body env =
     bnd (fromString returnTypeStr) (\<lambda>returnType.
     bnd (lift (arrayOf params)) (\<lambda>ps.
     bnd (mapM paramEntry ps) (\<lambda>entries.
     bnd (newEnv (paramsRecord entries) (Some env)) (\<lambda>fnEnv.
     bnd (tcBody tcr body fnEnv) (\<lambda>actualReturnType.
     bnd (equalsM returnType actualReturnType) (\<lambda>ok.
     if ok then ret (Some (newFunction None (map snd entries) returnType))
     else throw ReturnTypeMismatch))))))"

text \<open>
  \<open>_checkFunctionCall\<close>. On an arity mismatch the source builds its message from
  \<open>epx[0]\<close>, an undeclared variable, so what is thrown is a \<open>ReferenceError\<close>.
\<close>

definition checkArgument :: "ty option \<times> ty \<Rightarrow> unit M" where
  "checkArgument = (\<lambda>(argType, paramType).
     bnd (typeConst ''any'') (\<lambda>tany.
     if Some paramType = tany then ret ()
     else bnd (expect argType (Some paramType)) (\<lambda>_. ret ())))"

definition checkFunctionCall :: "ty option \<Rightarrow> ty option list \<Rightarrow> ty option M" where
  "checkFunctionCall fn argTypes =
     (case fn of
        Some (Function n paramTypes returnType) \<Rightarrow>
          if length paramTypes \<noteq> length argTypes then throw JSReferenceError
          else bnd (mapM checkArgument (zip argTypes paramTypes)) (\<lambda>_. ret (Some returnType))
      | _ \<Rightarrow> throw JSTypeError)"

definition createSimpleFunctionType ::
  "(exp \<Rightarrow> addr \<Rightarrow> ty option M) \<Rightarrow> exp \<Rightarrow> addr \<Rightarrow> ty option M" where
  "createSimpleFunctionType tcr exp env =
     bnd (lift (elems exp)) (\<lambda>es.
     tcFunction tcr (nthU es 1) (nthU es 3) (nthU es 4) env)"

text \<open>
  \<open>_createGenericFunctionType\<close> with \<open>new Type.GenericFunction\<close>: nothing is checked.
  The generic parameter list is a string here, or else an array whose string conversion
  passed the test, on which \<open>split\<close> then fails.
\<close>

definition createGenericFunctionType :: "exp \<Rightarrow> addr \<Rightarrow> ty option M" where
  "createGenericFunctionType exp env =
     bnd (lift (elems exp)) (\<lambda>es.
     case nthU es 1 of
       Str genericTypes \<Rightarrow>
         let genericTypesStr = butlast (drop 1 genericTypes)
         in ret (Some (GenericFunction (''lambda <'' @ genericTypesStr @ ''>'')
                   (splitComma genericTypesStr) (nthU es 2) (nthU es 4) (nthU es 5) env))
     | _ \<Rightarrow> throw JSTypeError)"

subsection \<open>Generic calls\<close>

definition extractActualCallTypes :: "exp \<Rightarrow> string list M" where
  "extractActualCallTypes exp =
     (if bracketed (jsString (idx exp 1))
      then ret (splitComma (butlast (drop 1 (jsString (idx exp 1)))))
      else throw NoActualTypes)"

text \<open>
  \<open>_getGenericTypesMap\<close>: one entry per generic parameter, in order; a parameter past
  the end of the actual types is mapped to \<open>undefined\<close>.
\<close>

definition getGenericTypesMap :: "string list \<Rightarrow> string list \<Rightarrow> (string \<times> exp) list" where
  "getGenericTypesMap genericTypes actualType =
     fold (\<lambda>i m. AList.update (genericTypes ! i)
                    (if i < length actualType then Str (actualType ! i) else Undefined) m)
       [0..<length genericTypes] []"

definition bindType :: "(string \<times> exp) list \<Rightarrow> exp \<Rightarrow> exp" where
  "bindType genericTypesMap t =
     (case t of
        Str k \<Rightarrow> (case map_of genericTypesMap k of Some actual \<Rightarrow> actual | None \<Rightarrow> t)
      | _ \<Rightarrow> t)"

definition bindFunctionTypes :: "exp \<Rightarrow> exp \<Rightarrow> (string \<times> exp) list \<Rightarrow> (exp \<times> exp) M" where
  "bindFunctionTypes params returnType genericTypesMap =
     (if params = Undefined then throw JSTypeError
      else bnd (mapM (\<lambda>i. bnd (lift (elems (idx params i))) (\<lambda>es.
                          ret (Arr [nthU es 0, bindType genericTypesMap (nthU es 1)])))
                  [0..<(case jsLength params of None \<Rightarrow> 0 | Some l \<Rightarrow> l)]) (\<lambda>actualParams.
           ret (Arr actualParams, bindType genericTypesMap returnType)))"

definition tcCall :: "(exp \<Rightarrow> addr \<Rightarrow> ty option M) \<Rightarrow> exp \<Rightarrow> addr \<Rightarrow> ty option M" where
  "tcCall tcr exp env =
     bnd (lift (arrayOf exp)) (\<lambda>xs.
     bnd (tcr (idx exp 0) env) (\<lambda>fn.
     bnd (case fn of
            Some (GenericFunction n genericTypes params returnType body fenv) \<Rightarrow>
              bnd (extractActualCallTypes exp) (\<lambda>actualTypes.
              bnd (bindFunctionTypes params returnType
                     (getGenericTypesMap genericTypes actualTypes)) (\<lambda>(boundParams, boundReturnType).
              bnd (tcFunction tcr boundParams boundReturnType body fenv) (\<lambda>actualFn.
              ret (actualFn, drop 2 xs))))
          | _ \<Rightarrow> ret (fn, drop 1 xs)) (\<lambda>(actualFn, argValues).
     bnd (mapM (\<lambda>arg. tcr arg env) argValues) (\<lambda>argTypes.
     checkFunctionCall actualFn argTypes))))"


subsection \<open>Declarations\<close>

definition freshId :: "nat M" where
  "freshId = (\<lambda>s. (Ret (nextId s), s\<lparr>nextId := Suc (nextId s)\<rparr>))"

text \<open>
  The constructors store the declared name as it stands in the tree. The model follows
  names that are strings, and stops on any other value.
\<close>

definition newUnion :: "exp \<Rightarrow> ty list \<Rightarrow> ty M" where
  "newUnion name optionTypes =
     (case name of
        Str n \<Rightarrow> bnd freshId (\<lambda>i. ret (Union i n optionTypes))
      | _ \<Rightarrow> throw Unmodelled)"

definition newAlias :: "exp \<Rightarrow> ty option \<Rightarrow> ty M" where
  "newAlias name par =
     (case (name, par) of
        (Str n, Some p) \<Rightarrow> ret (Alias n p)
      | _ \<Rightarrow> throw Unmodelled)"

text \<open>\<open>superClass.env\<close>: classes and generic functions have an \<open>env\<close> field.\<close>

fun envOf :: "ty \<Rightarrow> addr option" where
  "envOf (Class i n s e) = Some e"
| "envOf (GenericFunction n gs ps r b e) = Some e"
| "envOf _ = None"

text \<open>
  \<open>new Type.Class({name, superClass = Type.null})\<close>: the default applies when the
  argument is \<open>undefined\<close>. The scope of the class is parented to the scope of the
  superclass unless the superclass is \<open>Type.null\<close>.
\<close>

definition newClass :: "exp \<Rightarrow> ty option \<Rightarrow> ty M" where
  "newClass name superClassArg =
     bnd (case superClassArg of None \<Rightarrow> typeConst ''null'' | Some c \<Rightarrow> ret (Some c)) (\<lambda>superClass.
     bnd (typeConst ''null'') (\<lambda>tnull.
     case (name, superClass) of
       (Str n, Some sc) \<Rightarrow>
         bnd (newEnv [] (if superClass \<noteq> tnull then envOf sc else None)) (\<lambda>e.
         bnd freshId (\<lambda>i. ret (Class i n sc e)))
     | _ \<Rightarrow> throw Unmodelled))"

text \<open>The \<open>type\<close> branch of \<open>tc\<close>.\<close>

definition tcType :: "exp \<Rightarrow> ty option M" where
  "tcType exp =
     bnd (lift (elems exp)) (\<lambda>es.
     let name = nthU es 1; base = nthU es 2 in
     bnd (lift (first base)) (\<lambda>h.
     if h = Str ''or''
     then bnd (lift (arrayOf base)) (\<lambda>bs.
          bnd (mapM fromString (drop 1 bs)) (\<lambda>optionTypes.
          bnd (newUnion name optionTypes) (\<lambda>u.
          bnd (typeSet (jsString name) u) (\<lambda>_.
          ret (Some u)))))
     else (\<lambda>s.
       if typeHasOwnProperty (jsString name) s then (Throw DuplicateType, s)
       else if \<not> typeHasOwnProperty (jsString base) s then (Throw UnknownType, s)
       else bnd (typeGet (jsString base)) (\<lambda>par.
            bnd (newAlias name par) (\<lambda>a.
            bnd (typeSet (jsString name) a) (\<lambda>_.
            ret (Some a)))) s)))"

text \<open>The \<open>class\<close> branch of \<open>tc\<close>.\<close>

definition tcClass :: "(exp \<Rightarrow> addr \<Rightarrow> ty option M) \<Rightarrow> exp \<Rightarrow> addr \<Rightarrow> ty option M" where
  "tcClass tcr exp env =
     bnd (lift (elems exp)) (\<lambda>es.
     let name = nthU es 1; superClassName = nthU es 2; body = nthU es 3 in
     bnd (typeGet (jsString superClassName)) (\<lambda>superClass.
     bnd (newClass name superClass) (\<lambda>classType.
     bnd (defineName env (jsString name) (Some classType)) (\<lambda>_.
     bnd (typeSet (jsString name) classType) (\<lambda>_.
     case classType of
       Class i n s classEnv \<Rightarrow> bnd (tcBody tcr body classEnv) (\<lambda>_. ret (Some classType))
     | _ \<Rightarrow> throw Unmodelled)))))"

text \<open>\<open>instanceType.getField(name)\<close>: a method of classes only.\<close>

definition getField :: "ty option \<Rightarrow> exp \<Rightarrow> ty option M" where
  "getField t name =
     (case t of
        Some (Class i n s e) \<Rightarrow> lookup e (jsString name)
      | _ \<Rightarrow> throw JSTypeError)"

text \<open>The \<open>new\<close> branch.\<close>

definition tcNew :: "(exp \<Rightarrow> addr \<Rightarrow> ty option M) \<Rightarrow> exp \<Rightarrow> addr \<Rightarrow> ty option M" where
  "tcNew tcr exp env =
     bnd (lift (elems exp)) (\<lambda>es.
     bnd (typeGet (jsString (nthU es 1))) (\<lambda>classType.
     if classType = None then throw UnknownClass
     else bnd (mapM (\<lambda>arg. tcr arg env) (drop 2 es)) (\<lambda>argTypes.
          bnd (getField classType (Str ''constructor'')) (\<lambda>ctor.
          checkFunctionCall ctor (classType # argTypes)))))"

text \<open>The \<open>super\<close> branch: \<open>classType.superClass\<close> is \<open>undefined\<close> on anything but a class.\<close>

definition tcSuper :: "exp \<Rightarrow> ty option M" where
  "tcSuper exp =
     bnd (lift (elems exp)) (\<lambda>es.
     bnd (typeGet (jsString (nthU es 1))) (\<lambda>classType.
     case classType of
       None \<Rightarrow> throw UnknownClass
     | Some (Class i n s e) \<Rightarrow> ret (Some s)
     | Some _ \<Rightarrow> ret None))"

text \<open>The \<open>prop\<close> branch.\<close>

definition tcProp :: "(exp \<Rightarrow> addr \<Rightarrow> ty option M) \<Rightarrow> exp \<Rightarrow> addr \<Rightarrow> ty option M" where
  "tcProp tcr exp env =
     bnd (lift (elems exp)) (\<lambda>es.
     bnd (tcr (nthU es 1) env) (\<lambda>instanceType.
     getField instanceType (nthU es 2)))"

text \<open>The \<open>var\<close> branch: the value is checked first; an array in name position is \<open>(name type)\<close>.\<close>

definition tcVar :: "(exp \<Rightarrow> addr \<Rightarrow> ty option M) \<Rightarrow> exp \<Rightarrow> addr \<Rightarrow> ty option M" where
  "tcVar tcr exp env =
     bnd (lift (elems exp)) (\<lambda>es.
     let name = nthU es 1; val = nthU es 2 in
     bnd (tcr val env) (\<lambda>valueType.
     case name of
       Arr ns \<Rightarrow>
         bnd (fromString (nthU ns 1)) (\<lambda>expectedType.
         bnd (expect valueType (Some expectedType)) (\<lambda>_.
         defineName env (jsString (nthU ns 0)) (Some expectedType)))
     | _ \<Rightarrow> defineName env (jsString name) valueType))"

text \<open>The \<open>set\<close> branch.\<close>

definition tcSet :: "(exp \<Rightarrow> addr \<Rightarrow> ty option M) \<Rightarrow> exp \<Rightarrow> addr \<Rightarrow> ty option M" where
  "tcSet tcr exp env =
     bnd (lift (elems exp)) (\<lambda>es.
     let ref = nthU es 1; val = nthU es 2 in
     bnd (lift (first ref)) (\<lambda>h.
     if h = Str ''prop''
     then bnd (lift (elems ref)) (\<lambda>rs.
          bnd (tcr (nthU rs 1) env) (\<lambda>instanceType.
          bnd (tcr val env) (\<lambda>valueType.
          bnd (getField instanceType (nthU rs 2)) (\<lambda>propType.
          expect valueType propType))))
     else bnd (tcr val env) (\<lambda>valueType.
          bnd (tcr ref env) (\<lambda>varType.
          expect valueType varType))))"

subsection \<open>Conditionals\<close>

definition isTypeCastCondition :: "exp \<Rightarrow> bool M" where
  "isTypeCastCondition condition =
     bnd (lift (elems condition)) (\<lambda>cs.
     if nthU cs 0 = Str ''==''
     then bnd (lift (first (nthU cs 1))) (\<lambda>h. ret (h = Str ''typeof''))
     else ret False)"

definition getSpecifiedType :: "exp \<Rightarrow> (exp \<times> exp) M" where
  "getSpecifiedType condition =
     bnd (lift (elems condition)) (\<lambda>cs.
     bnd (lift (elems (nthU cs 1))) (\<lambda>ls.
     bnd (lift (sliceInner (nthU cs 2))) (\<lambda>specificType.
     ret (nthU ls 1, specificType))))"

text \<open>The environment for the consequent: the given one, or a child that rebinds one name.\<close>

definition consequentEnv :: "exp \<Rightarrow> addr \<Rightarrow> addr M" where
  "consequentEnv condition env =
     bnd (isTypeCastCondition condition) (\<lambda>cast.
     if cast
     then bnd (getSpecifiedType condition) (\<lambda>(name, specificType).
          bnd (fromString specificType) (\<lambda>t.
          newEnv [(jsString name, Some t)] (Some env)))
     else ret env)"

definition tcIf :: "(exp \<Rightarrow> addr \<Rightarrow> ty option M) \<Rightarrow> exp \<Rightarrow> addr \<Rightarrow> ty option M" where
  "tcIf tcr exp env =
     bnd (lift (elems exp)) (\<lambda>es.
     let condition = nthU es 1; consequent = nthU es 2; alternative = nthU es 3 in
     bnd (tcr condition env) (\<lambda>t1.
     bnd (typeConst ''boolean'') (\<lambda>tboolean.
     bnd (expect t1 tboolean) (\<lambda>_.
     bnd (consequentEnv condition env) (\<lambda>cenv.
     bnd (tcr consequent cenv) (\<lambda>t2.
     bnd (tcr alternative env) (\<lambda>t3.
     expect t3 t2)))))))"

definition tcWhile :: "(exp \<Rightarrow> addr \<Rightarrow> ty option M) \<Rightarrow> exp \<Rightarrow> addr \<Rightarrow> ty option M" where
  "tcWhile tcr exp env =
     bnd (lift (elems exp)) (\<lambda>es.
     let condition = nthU es 1; body = nthU es 2 in
     bnd (tcr condition env) (\<lambda>t1.
     bnd (typeConst ''boolean'') (\<lambda>tboolean.
     bnd (expect t1 tboolean) (\<lambda>_.
     tcr body env))))"

subsection \<open>Function declarations\<close>

definition transformDefToVarLambda :: "exp \<Rightarrow> error + exp" where
  "transformDefToVarLambda exp =
     (case elems exp of
        Inl e \<Rightarrow> Inl e
      | Inr es \<Rightarrow>
          if isGenericDefFunction exp
          then Inr (Arr [Str ''var'', nthU es 1,
                 Arr [Str ''lambda'', nthU es 2, nthU es 3, nthU es 4, nthU es 5, nthU es 6]])
          else Inr (Arr [Str ''var'', nthU es 1,
                 Arr [Str ''lambda'', nthU es 2, nthU es 3, nthU es 4, nthU es 5]]))"

text \<open>The function type built from the declared signature of a \<open>def\<close>.\<close>

definition signatureType :: "exp \<Rightarrow> exp \<Rightarrow> ty M" where
  "signatureType params returnTypeStr =
     bnd (lift (arrayOf params)) (\<lambda>ps.
     bnd (mapM (\<lambda>p. bnd (lift (elems p)) (\<lambda>es. fromString (nthU es 1))) ps) (\<lambda>paramTypes.
     bnd (fromString returnTypeStr) (\<lambda>returnType.
     ret (newFunction None paramTypes returnType))))"

definition tcDef :: "(exp \<Rightarrow> addr \<Rightarrow> ty option M) \<Rightarrow> exp \<Rightarrow> addr \<Rightarrow> ty option M" where
  "tcDef tcr exp env =
     bnd (lift (transformDefToVarLambda exp)) (\<lambda>varExp.
     bnd (if \<not> isGenericDefFunction exp
          then bnd (signatureType (idx exp 2) (idx exp 4)) (\<lambda>fn.
               bnd (defineName env (jsString (idx exp 1)) (Some fn)) (\<lambda>_. ret ()))
          else ret ()) (\<lambda>_.
     tcr varExp env))"

definition tcLambda :: "(exp \<Rightarrow> addr \<Rightarrow> ty option M) \<Rightarrow> exp \<Rightarrow> addr \<Rightarrow> ty option M" where
  "tcLambda tcr exp env =
     (if isGenericLambdaFunction exp then createGenericFunctionType exp env
      else createSimpleFunctionType tcr exp env)"

subsection \<open>\<open>tc\<close>\<close>

text \<open>
  The body of \<open>tc\<close>, in the order of the source. After the three literal tests the
  source reads \<open>exp[0]\<close>, which throws on \<open>undefined\<close>.
\<close>

definition tcStep :: "(exp \<Rightarrow> addr \<Rightarrow> ty option M) \<Rightarrow> exp \<Rightarrow> addr \<Rightarrow> ty option M" where
  "tcStep tcr exp env =
     (if isNumber exp then typeConst ''number''
      else if isString exp then typeConst ''string''
      else if isBoolean exp then typeConst ''boolean''
      else if exp = Undefined then throw JSTypeError
      else if isBinary exp then binary tcr exp env
      else if isBooleanBinary exp then booleanBinary tcr exp env
      else if idx exp 0 = Str ''type'' then tcType exp
      else if idx exp 0 = Str ''class'' then tcClass tcr exp env
      else if idx exp 0 = Str ''new'' then tcNew tcr exp env
      else if idx exp 0 = Str ''super'' then tcSuper exp
      else if idx exp 0 = Str ''prop'' then tcProp tcr exp env
      else if idx exp 0 = Str ''var'' then tcVar tcr exp env
      else if isVariableName exp then lookup env (jsString exp)
      else if idx exp 0 = Str ''set'' then tcSet tcr exp env
      else if idx exp 0 = Str ''begin'' then bnd (newEnv [] (Some env)) (\<lambda>blockEnv. tcBlock tcr exp blockEnv)
      else if idx exp 0 = Str ''if'' then tcIf tcr exp env
      else if idx exp 0 = Str ''while'' then tcWhile tcr exp env
      else if idx exp 0 = Str ''def'' then tcDef tcr exp env
      else if idx exp 0 = Str ''lambda'' then tcLambda tcr exp env
      else (case exp of Arr xs \<Rightarrow> tcCall tcr exp env | _ \<Rightarrow> throw UnknownExpression))"

text \<open>
  \<open>tc\<close> recurses on subexpressions and, at a generic call, on the body stored in the
  function's type, so it need not terminate (a generic function whose body calls itself
  is checked again at every call). The first argument bounds the depth of nested calls
  of \<open>tc\<close>; the result is \<open>Timeout\<close> when the bound is reached.
\<close>

primrec tc :: "nat \<Rightarrow> exp \<Rightarrow> addr \<Rightarrow> ty option M" where
  "tc 0 = (\<lambda>exp env. timeout)"
| "tc (Suc n) = tcStep (tc n)"

subsection \<open>A checker instance\<close>

text \<open>The properties \<open>Type.js\<close> sets when it is loaded.\<close>

definition loadedState :: state where
  "loadedState = \<lparr>registry = [(''number'', Prim ''number''), (''string'', Prim ''string''),
       (''boolean'', Prim ''boolean''), (''null'', Prim ''null''), (''any'', Prim ''any'')],
     scopes = [], nextId = 0\<rparr>"

definition createGlobal :: "addr M" where
  "createGlobal =
     bnd (typeConst ''string'') (\<lambda>version.
     bnd (fromString (Str ''Fn<number<number,number>>'')) (\<lambda>sum.
     bnd (fromString (Str ''Fn<number<number>>'')) (\<lambda>square.
     bnd (fromString (Str ''Fn<string<any>>'')) (\<lambda>typeof.
     newEnv [(''VERSION'', version), (''sum'', Some sum), (''square'', Some square),
             (''typeof'', Some typeof)] None))))"

text \<open>The state after \<open>new EvaTC()\<close>; the global environment is the first scope.\<close>

definition initState :: state where
  "initState = snd (createGlobal loadedState)"

definition global :: addr where
  "global = 0"

definition tcGlobal :: "nat \<Rightarrow> exp \<Rightarrow> ty option M" where
  "tcGlobal n exp = tcBody (tc n) exp global"


section \<open>Programs used as examples\<close>

text \<open>\<open>(begin (type N (or number)) (var (x N) 1) (+ x x))\<close>\<close>

definition singletonUnionPlus :: exp where
  "singletonUnionPlus =
     Arr [Str ''begin'',
       Arr [Str ''type'', Str ''N'', Arr [Str ''or'', Str ''number'']],
       Arr [Str ''var'', Arr [Str ''x'', Str ''N''], Num 1],
       Arr [Str ''+'', Str ''x'', Str ''x'']]"

text \<open>\<open>(type U (or number))\<close>, \<open>(type U (or string))\<close>, \<open>(type number (or string))\<close>\<close>

definition declareUnionNumber :: exp where
  "declareUnionNumber = Arr [Str ''type'', Str ''U'', Arr [Str ''or'', Str ''number'']]"

definition declareUnionString :: exp where
  "declareUnionString = Arr [Str ''type'', Str ''U'', Arr [Str ''or'', Str ''string'']]"

definition redefineNumber :: exp where
  "redefineNumber = Arr [Str ''type'', Str ''number'', Arr [Str ''or'', Str ''string'']]"

text \<open>\<open>(class A null (begin))\<close>, \<open>(class Foo Bar (begin))\<close>\<close>

definition declareClassA :: exp where
  "declareClassA = Arr [Str ''class'', Str ''A'', Str ''null'', Arr [Str ''begin'']]"

definition classWithUnknownSuper :: exp where
  "classWithUnknownSuper = Arr [Str ''class'', Str ''Foo'', Str ''Bar'', Arr [Str ''begin'']]"

text \<open>\<open>(type ns (or number string))\<close> and the state it leaves.\<close>

definition declareNs :: exp where
  "declareNs = Arr [Str ''type'', Str ''ns'', Arr [Str ''or'', Str ''number'', Str ''string'']]"

definition nsState :: state where
  "nsState = snd (tc 1 declareNs global initState)"

definition nsType :: ty where
  "nsType = Union 0 ''ns'' [Prim ''number'', Prim ''string'']"

text \<open>\<open>(var (y (or number string)) 10)\<close>\<close>

definition inlineUnionVar :: exp where
  "inlineUnionVar =
     Arr [Str ''var'', Arr [Str ''y'', Arr [Str ''or'', Str ''number'', Str ''string'']], Num 10]"

text \<open>
  \<open>(def fact ((n number)) -> number (if (== n 0) 1 (* n (fact (- n 1)))))\<close>, the
  \<open>var\<close> form it is rewritten to, and its type.
\<close>

definition factDef :: exp where
  "factDef =
     Arr [Str ''def'', Str ''fact'', Arr [Arr [Str ''n'', Str ''number'']], Str ''->'', Str ''number'',
       Arr [Str ''if'', Arr [Str ''=='', Str ''n'', Num 0], Num 1,
         Arr [Str ''*'', Str ''n'', Arr [Str ''fact'', Arr [Str ''-'', Str ''n'', Num 1]]]]]"

definition factVarLambda :: exp where
  "factVarLambda =
     Arr [Str ''var'', Str ''fact'',
       Arr [Str ''lambda'', Arr [Arr [Str ''n'', Str ''number'']], Str ''->'', Str ''number'',
         Arr [Str ''if'', Arr [Str ''=='', Str ''n'', Num 0], Num 1,
           Arr [Str ''*'', Str ''n'', Arr [Str ''fact'', Arr [Str ''-'', Str ''n'', Num 1]]]]]]"

definition factType :: ty where
  "factType = Function ''Fn<number<number>>'' [Prim ''number''] (Prim ''number'')"

text \<open>\<open>(lambda <T> ((x T)) -> T x)\<close>, its type, and calls of generic functions.\<close>

definition identityLambda :: exp where
  "identityLambda =
     Arr [Str ''lambda'', Str ''<T>'', Arr [Arr [Str ''x'', Str ''T'']], Str ''->'', Str ''T'', Str ''x'']"

definition identityType :: ty where
  "identityType =
     GenericFunction ''lambda <T>'' [''T''] (Arr [Arr [Str ''x'', Str ''T'']]) (Str ''T'') (Str ''x'') global"

definition surplusTypesCall :: exp where
  "surplusTypesCall = Arr [identityLambda, Str ''<number,string>'', Num 5]"

definition missingTypeCall :: exp where
  "missingTypeCall =
     Arr [Arr [Str ''lambda'', Str ''<T,U>'', Arr [Arr [Str ''x'', Str ''T'']], Str ''->'', Str ''T'', Str ''x''],
          Str ''<number>'', Num 5]"

text \<open>
  The state in which \<open>x\<close> has the union type \<open>ns\<close>, and
  \<open>(if (== (typeof x) "number") (- x 1) 0)\<close>.
\<close>

definition nsXState :: state where
  "nsXState = snd (tc 2 (Arr [Str ''var'', Arr [Str ''x'', Str ''ns''], Num 10]) global nsState)"

definition narrowingTest :: exp where
  "narrowingTest = Arr [Str ''=='', Arr [Str ''typeof'', Str ''x''], Str (CHR 0x22 # ''number'' @ [CHR 0x22])]"

definition narrowingIf :: exp where
  "narrowingIf =
     Arr [Str ''if'', narrowingTest, Arr [Str ''-'', Str ''x'', Num 1], Num 0]"

text \<open>
  \<open>(begin (type sn (or string number)) (type snb (or sn boolean)) (var (x snb) true) (+ x x))\<close>
\<close>

definition unionWithBooleanPlus :: exp where
  "unionWithBooleanPlus =
     Arr [Str ''begin'',
       Arr [Str ''type'', Str ''sn'', Arr [Str ''or'', Str ''string'', Str ''number'']],
       Arr [Str ''type'', Str ''snb'', Arr [Str ''or'', Str ''sn'', Str ''boolean'']],
       Arr [Str ''var'', Arr [Str ''x'', Str ''snb''], Bool True],
       Arr [Str ''+'', Str ''x'', Str ''x'']]"

text \<open>\<open>(begin (type F Fn<number<number>>) (var (f F) square))\<close>\<close>

definition aliasOfFunctionVar :: exp where
  "aliasOfFunctionVar =
     Arr [Str ''begin'',
       Arr [Str ''type'', Str ''F'', Str ''Fn<number<number>>''],
       Arr [Str ''var'', Arr [Str ''f'', Str ''F''], Str ''square'']]"

section \<open>Call forms\<close>

text \<open>
  The expressions that reach the last branch of \<open>tc\<close>, the function call: arrays whose
  head is neither an operator nor one of the tags of the special forms.
\<close>

definition keywordTags :: "string list" where
  "keywordTags = [''type'', ''class'', ''new'', ''super'', ''prop'', ''var'', ''set'', ''begin'',
     ''if'', ''while'', ''def'', ''lambda'']"

definition isCallForm :: "exp \<Rightarrow> bool" where
  "isCallForm exp =
     (case exp of
        Arr xs \<Rightarrow> \<not> isBinary exp \<and> \<not> isBooleanBinary exp \<and> (\<forall>k \<in> set keywordTags. idx exp 0 \<noteq> Str k)
      | _ \<Rightarrow> False)"

section \<open>Alias chains\<close>

fun aliasChain :: "ty \<Rightarrow> ty list" where
  "aliasChain (Alias n p) = Alias n p # aliasChain p"
| "aliasChain t = [t]"

fun aliasRoot :: "ty \<Rightarrow> ty" where
  "aliasRoot (Alias n p) = aliasRoot p"
| "aliasRoot t = t"

fun isFunction :: "ty \<Rightarrow> bool" where
  "isFunction (Function n ps r) = True"
| "isFunction _ = False"

section \<open>Scopes and the checks that leave them alone\<close>

text \<open>A computation that leaves the store of scopes as it is.\<close>

definition scopesKept :: "'a M \<Rightarrow> bool" where
  "scopesKept m = (\<forall>s r s'. m s = (r, s') \<longrightarrow> scopes s' = scopes s)"

text \<open>
  \<open>keeps a k s s'\<close>: from \<open>s\<close> to \<open>s'\<close> the store has only grown, and every scope
  below \<open>k\<close> other than \<open>a\<close> is as it was. A computation is \<open>confined a k\<close> when
  that holds of every run that starts with at least \<open>k\<close> scopes; \<open>confinedTo\<close> adds
  a property of the value returned. A checker is \<open>framed\<close> when checking in a scope
  is confined to that scope.
\<close>

definition keeps :: "addr \<Rightarrow> nat \<Rightarrow> state \<Rightarrow> state \<Rightarrow> bool" where
  "keeps a k s s' =
     (length (scopes s) \<le> length (scopes s') \<and> (\<forall>b<k. b \<noteq> a \<longrightarrow> scopes s' ! b = scopes s ! b))"

definition confined :: "addr \<Rightarrow> nat \<Rightarrow> 'a M \<Rightarrow> bool" where
  "confined a k m = (\<forall>s r s'. k \<le> length (scopes s) \<longrightarrow> m s = (r, s') \<longrightarrow> keeps a k s s')"

definition framed :: "(exp \<Rightarrow> addr \<Rightarrow> ty option M) \<Rightarrow> bool" where
  "framed tcr = (\<forall>e a k. confined a k (tcr e a))"

definition confinedTo :: "addr \<Rightarrow> nat \<Rightarrow> ('a \<Rightarrow> bool) \<Rightarrow> 'a M \<Rightarrow> bool" where
  "confinedTo a k P m =
     (\<forall>s r s'. k \<le> length (scopes s) \<longrightarrow> m s = (r, s') \<longrightarrow>
        keeps a k s s' \<and> (\<forall>x. r = Ret x \<longrightarrow> P x))"

fun classAbove :: "nat \<Rightarrow> ty \<Rightarrow> bool" where
  "classAbove k (Class i n sc e) = (k \<le> e)"
| "classAbove k _ = False"

named_theorems kept_intros

named_theorems confined_intros

section \<open>The depth bound\<close>

text \<open>
  \<open>refines m m'\<close>: whenever \<open>m\<close> ends without running out of fuel, \<open>m'\<close> ends
  the same way. \<open>extends tcr tcr'\<close> lifts this to checkers.
\<close>

definition refines :: "'a M \<Rightarrow> 'a M \<Rightarrow> bool" where
  "refines m m' = (\<forall>s r s'. m s = (r, s') \<longrightarrow> r \<noteq> Timeout \<longrightarrow> m' s = (r, s'))"

definition extends :: "(exp \<Rightarrow> addr \<Rightarrow> ty option M) \<Rightarrow> (exp \<Rightarrow> addr \<Rightarrow> ty option M) \<Rightarrow> bool" where
  "extends tcr tcr' = (\<forall>e a. refines (tcr e a) (tcr' e a))"

named_theorems refines_intros

section \<open>Laws of the state and exception monad\<close>

lemma bnd_ret [simp]: "bnd (ret x) f = f x"
  by (simp add: bnd_def ret_def)

lemma bnd_throw [simp]: "bnd (throw e) f = throw e"
  by (simp add: bnd_def throw_def)

lemma bnd_assoc: "bnd (bnd m f) g = bnd m (\<lambda>x. bnd (f x) g)"
  by (auto simp: bnd_def fun_eq_iff split: prod.splits outcome.splits)

lemma bnd_Ret: "m s = (Ret x, s') \<Longrightarrow> bnd m f s = f x s'"
  by (simp add: bnd_def)

section \<open>Dispatch of \<open>tc\<close>\<close>

lemma idx_keyword:
  "idx exp 0 = Str k \<Longrightarrow> length k \<noteq> 1 \<Longrightarrow> \<exists>xs. exp = Arr (Str k # xs)"
  by (cases exp) (auto split: if_splits simp: neq_Nil_conv)

lemma tcStep_var:
  "tcStep tcr (Arr (Str ''var'' # rest)) env = tcVar tcr (Arr (Str ''var'' # rest)) env"
  by (simp add: tcStep_def isNumber_def isString_def isBoolean_def isBinary_def operatorToken_def
      isBooleanBinary_def)

lemma tcStep_def_branch:
  "tcStep tcr (Arr (Str ''def'' # rest)) env = tcDef tcr (Arr (Str ''def'' # rest)) env"
  by (simp add: tcStep_def isNumber_def isString_def isBoolean_def isBinary_def operatorToken_def
      isBooleanBinary_def isVariableName_def)

lemma tcStep_class:
  "tcStep tcr (Arr (Str ''class'' # rest)) env = tcClass tcr (Arr (Str ''class'' # rest)) env"
  by (simp add: tcStep_def isNumber_def isString_def isBoolean_def isBinary_def operatorToken_def
      isBooleanBinary_def)

lemma tcStep_call: "isCallForm exp \<Longrightarrow> tcStep tcr exp env = tcCall tcr exp env"
  by (cases exp)
    (simp_all add: isCallForm_def keywordTags_def tcStep_def isNumber_def isString_def
      isBoolean_def isVariableName_def)

text \<open>A name just defined in a scope is found there, with the type it was given.\<close>

lemma lookup_defineName:
  "defineName env x t s = (r, s') \<Longrightarrow> env < length (scopes s) \<Longrightarrow>
     r = Ret t \<and> lookup env x s' = (Ret t, s')"
  by (auto simp: defineName_def lookup_def lift_def ret_def update_conv')

section \<open>Results do not depend on the depth bound\<close>

lemma refines_refl [refines_intros]: "refines m m"
  by (simp add: refines_def)

lemma refines_timeout [refines_intros]: "refines timeout m"
  by (simp add: refines_def timeout_def)

lemma refines_bnd [refines_intros]:
  assumes "refines m m'" and "\<And>x. refines (f x) (f' x)"
  shows "refines (bnd m f) (bnd m' f')"
  unfolding refines_def
proof (intro allI impI)
  fix s r s'
  assume run: "bnd m f s = (r, s')" and r: "r \<noteq> Timeout"
  obtain r1 s1 where m: "m s = (r1, s1)" by (cases "m s")
  show "bnd m' f' s = (r, s')"
  proof (cases r1)
    case (Ret x)
    with m assms(1) have m': "m' s = (Ret x, s1)" by (simp add: refines_def)
    from Ret run m have "f x s1 = (r, s')" by (simp add: bnd_def)
    with assms(2) r have "f' x s1 = (r, s')" by (simp add: refines_def)
    with m' show ?thesis by (simp add: bnd_def)
  next
    case (Throw e)
    with m assms(1) have "m' s = (Throw e, s1)" by (simp add: refines_def)
    with Throw run m show ?thesis by (simp add: bnd_def)
  next
    case Timeout
    with run m r show ?thesis by (simp add: bnd_def)
  qed
qed

lemma refines_if [refines_intros]:
  "(c \<Longrightarrow> refines m m') \<Longrightarrow> (\<not> c \<Longrightarrow> refines n n') \<Longrightarrow>
     refines (if c then m else n) (if c then m' else n')"
  by simp

lemma refines_mapM [refines_intros]:
  "(\<And>x. refines (f x) (f' x)) \<Longrightarrow> refines (mapM f xs) (mapM f' xs)"
  by (induction xs) (auto intro!: refines_bnd refines_refl)

lemma refines_blockLoop [refines_intros]:
  "(\<And>x. refines (f x) (f' x)) \<Longrightarrow> refines (blockLoop f r xs) (blockLoop f' r xs)"
  by (induction xs arbitrary: r) (auto intro!: refines_bnd refines_refl)

lemma extendsD: "extends tcr tcr' \<Longrightarrow> refines (tcr e a) (tcr' e a)"
  by (simp add: extends_def)

lemma refines_binary:
  assumes "extends tcr tcr'" shows "refines (binary tcr e a) (binary tcr' e a)"
  unfolding binary_def by (intro refines_intros extendsD [OF assms])

lemma refines_booleanBinary:
  assumes "extends tcr tcr'" shows "refines (booleanBinary tcr e a) (booleanBinary tcr' e a)"
  unfolding booleanBinary_def by (intro refines_intros extendsD [OF assms])

lemma refines_tcBlock:
  assumes "extends tcr tcr'" shows "refines (tcBlock tcr e a) (tcBlock tcr' e a)"
  unfolding tcBlock_def by (intro refines_intros extendsD [OF assms])

lemma refines_tcBody:
  assumes "extends tcr tcr'" shows "refines (tcBody tcr e a) (tcBody tcr' e a)"
  unfolding tcBody_def by (intro refines_intros extendsD [OF assms] refines_tcBlock [OF assms])

lemma refines_tcFunction:
  assumes "extends tcr tcr'"
  shows "refines (tcFunction tcr ps r b a) (tcFunction tcr' ps r b a)"
  unfolding tcFunction_def by (intro refines_intros refines_tcBody [OF assms])

lemma refines_tcCall:
  assumes "extends tcr tcr'" shows "refines (tcCall tcr e a) (tcCall tcr' e a)"
  unfolding tcCall_def
  by (intro refines_bnd refines_refl)
    (auto intro!: refines_intros extendsD [OF assms] refines_tcFunction [OF assms]
      split: option.splits ty.splits prod.splits)

lemma refines_tcClass:
  assumes "extends tcr tcr'" shows "refines (tcClass tcr e a) (tcClass tcr' e a)"
  unfolding tcClass_def Let_def
  by (intro refines_bnd refines_refl)
    (auto intro!: refines_intros refines_tcBody [OF assms] split: ty.splits)

lemma refines_tcNew:
  assumes "extends tcr tcr'" shows "refines (tcNew tcr e a) (tcNew tcr' e a)"
  unfolding tcNew_def by (intro refines_intros extendsD [OF assms])

lemma refines_tcProp:
  assumes "extends tcr tcr'" shows "refines (tcProp tcr e a) (tcProp tcr' e a)"
  unfolding tcProp_def by (intro refines_intros extendsD [OF assms])

lemma refines_tcVar:
  assumes "extends tcr tcr'" shows "refines (tcVar tcr e a) (tcVar tcr' e a)"
  unfolding tcVar_def Let_def by (intro refines_intros extendsD [OF assms])

lemma refines_tcSet:
  assumes "extends tcr tcr'" shows "refines (tcSet tcr e a) (tcSet tcr' e a)"
  unfolding tcSet_def Let_def by (intro refines_intros extendsD [OF assms])

lemma refines_tcIf:
  assumes "extends tcr tcr'" shows "refines (tcIf tcr e a) (tcIf tcr' e a)"
  unfolding tcIf_def Let_def by (intro refines_intros extendsD [OF assms])

lemma refines_tcWhile:
  assumes "extends tcr tcr'" shows "refines (tcWhile tcr e a) (tcWhile tcr' e a)"
  unfolding tcWhile_def Let_def by (intro refines_intros extendsD [OF assms])

lemma refines_tcDef:
  assumes "extends tcr tcr'" shows "refines (tcDef tcr e a) (tcDef tcr' e a)"
  unfolding tcDef_def by (intro refines_intros extendsD [OF assms])

lemma refines_tcLambda:
  assumes "extends tcr tcr'" shows "refines (tcLambda tcr e a) (tcLambda tcr' e a)"
  unfolding tcLambda_def createSimpleFunctionType_def
  by (intro refines_intros refines_tcFunction [OF assms])

lemma extends_tcStep:
  assumes "extends tcr tcr'" shows "extends (tcStep tcr) (tcStep tcr')"
  unfolding extends_def
proof (intro allI)
  fix e a
  have call: "refines (case e of Arr xs \<Rightarrow> tcCall tcr e a | _ \<Rightarrow> throw UnknownExpression)
                      (case e of Arr xs \<Rightarrow> tcCall tcr' e a | _ \<Rightarrow> throw UnknownExpression)"
    by (cases e) (auto intro!: refines_intros refines_tcCall [OF assms])
  show "refines (tcStep tcr e a) (tcStep tcr' e a)"
    unfolding tcStep_def
    by (intro refines_if refines_refl refines_bnd refines_binary refines_booleanBinary
        refines_tcClass refines_tcNew refines_tcProp refines_tcVar refines_tcSet refines_tcBlock
        refines_tcIf refines_tcWhile refines_tcDef refines_tcLambda call assms)
qed

lemma extends_tc_Suc: "extends (tc n) (tc (Suc n))"
proof (induction n)
  case 0
  show ?case by (simp add: extends_def refines_timeout)
next
  case (Suc n)
  then show ?case using extends_tcStep [of "tc n" "tc (Suc n)"] by simp
qed

text \<open>A result reached with some bound on the depth is the result with every larger bound.\<close>

lemma tc_fuel_mono:
  assumes "tc n e a s = (r, s')" and "r \<noteq> Timeout" and "n \<le> m"
  shows "tc m e a s = (r, s')"
  using assms(3,1)
proof (induction m)
  case 0
  then show ?case by simp
next
  case (Suc m)
  show ?case
  proof (cases "n = Suc m")
    case True
    with Suc.prems show ?thesis by simp
  next
    case False
    with Suc have "tc m e a s = (r, s')" by simp
    with extends_tc_Suc [of m] assms(2) show ?thesis
      by (auto simp: extends_def refines_def simp del: tc.simps)
  qed
qed

section \<open>Properties of structural equality\<close>

lemma everyM_zip_same:
  "(\<And>p. p \<in> set ps \<Longrightarrow> f (p, p) = Inr True) \<Longrightarrow> everyM f (zip ps ps) = Inr True"
  by (induction ps) auto

text \<open>Every type equals itself.\<close>

lemma equals_reflexive: "equals tnull t (Some t) = Inr True"
proof (induction t)
  case (Function n ps r)
  then have "everyM (\<lambda>(p, q). equals tnull p (Some q)) (zip ps ps) = Inr True"
    by (intro everyM_zip_same) simp
  with Function show ?case by simp
qed simp_all

text \<open>An alias equals its parent.\<close>

lemma alias_equals_parent: "equals tnull (Alias n p) (Some p) = Inr True"
  by (simp add: equals_reflexive)

lemma chain_equals: "x \<in> set (aliasChain y) \<Longrightarrow> equals tnull y (Some x) = Inr True"
  by (induction y) (auto simp: equals_reflexive)

lemma chain_self: "t \<in> set (aliasChain t)"
  by (cases t) auto

lemma chain_parent: "Alias m q \<in> set (aliasChain p) \<Longrightarrow> q \<in> set (aliasChain p)"
  by (induction p) (auto simp: chain_self)

lemma equals_alias_above:
  "x \<in> set (aliasChain p) \<Longrightarrow> \<not> isFunction (aliasRoot x) \<Longrightarrow>
     equals tnull x (Some (Alias n p)) = Inr True"
proof (induction x)
  case (Alias m q)
  have "q \<in> set (aliasChain p)"
    using Alias.prems(1) by (rule chain_parent)
  with Alias show ?case by auto
qed (auto simp: chain_equals)

text \<open>
  A parent equals its alias whenever the parent's own alias chain does not end in a
  function type.
\<close>

lemma parent_equals_alias:
  "\<not> isFunction (aliasRoot p) \<Longrightarrow> equals tnull p (Some (Alias n p)) = Inr True"
  by (rule equals_alias_above) (simp_all add: chain_self)

text \<open>
  The type of the global \<open>square\<close> is registered under \<open>Fn<number<number>>\<close>, so it can
  be aliased; declaring a variable of the alias type with the value \<open>square\<close> asks the
  function type whether it equals its alias, and the check ends in a \<open>TypeError\<close>.
\<close>

lemma alias_of_function_program:
  "fst (tc 10 aliasOfFunctionVar global initState) = Throw JSTypeError"
  by code_simp

text \<open>
  C8: \<open>equals\<close> is claimed reflexive, and an alias and its parent are claimed equal in
  both directions. Reflexivity and \<open>A.equals(P)\<close> hold (\<open>equals_reflexive\<close>,
  \<open>alias_equals_parent\<close>). \<open>P.equals(A)\<close> holds unless \<open>P\<close> is, or is an alias of, a
  function type (\<open>parent_equals_alias\<close>): \<open>Type.Function.equals\<close>, unlike the
  \<open>equals\<close> of every other class, does not hand the comparison over to an alias, and
  reads \<open>other.paramTypes.length\<close> on it. For every function type \<open>P\<close> and alias
  \<open>A\<close> of it, \<open>A.equals(P)\<close> is true and \<open>P.equals(A)\<close> throws a \<open>TypeError\<close>.
\<close>

theorem function_parent_alias_equals:
  "equals tnull (Alias a (Function n ps r)) (Some (Function n ps r)) = Inr True \<and>
   equals tnull (Function n ps r) (Some (Alias a (Function n ps r))) = Inl JSTypeError"
  by (simp add: equals_reflexive)

section \<open>Union operands of arithmetic operators\<close>

lemma someM_prims:
  "someM (\<lambda>t. equals tnull t (Some (Prim a))) (map Prim ns) = Inr (a \<in> set ns)"
  by (induction ns) auto

lemma everyM_union_prims:
  "everyM (\<lambda>t. equals tnull (Union i n (map Prim ns)) t) (map (\<lambda>a. Some (Prim a)) as)
     = Inr (set as \<subseteq> set ns)"
  by (induction as) (auto simp: someM_prims)

text \<open>
  What the operand test computes on a union of primitives, against allowed primitives:
  the union must have as many options as there are allowed types, and every allowed type
  must be among the options.
\<close>

lemma operatorTypeOk_union_prims:
  "operatorTypeOk tnull (Some (Union i n (map Prim ns))) (map (\<lambda>a. Some (Prim a)) as)
     = Inr (length as = length ns \<and> set as \<subseteq> set ns)"
  by (auto simp del: equals.simps simp: everyM_union_prims)

text \<open>
  Unions over string and number are accepted by \<open>+\<close> in either order; a union over
  string and boolean is rejected.
\<close>

lemma union_operand_spec_examples:
  "operatorTypeOk tnull (Some (Union i n [Prim ''string'', Prim ''number'']))
     [Some (Prim ''string''), Some (Prim ''number'')] = Inr True
   \<and> operatorTypeOk tnull (Some (Union i n [Prim ''number'', Prim ''string'']))
     [Some (Prim ''string''), Some (Prim ''number'')] = Inr True
   \<and> operatorTypeOk tnull (Some (Union i n [Prim ''string'', Prim ''boolean'']))
     [Some (Prim ''string''), Some (Prim ''number'')] = Inr False"
  by simp

text \<open>
  A union is also accepted when an option is not allowed, as long as the allowed types
  are found somewhere in it: \<open>snb\<close> has the options \<open>sn\<close> (string or number) and
  boolean, and \<open>(+ x x)\<close> with \<open>x\<close> of type \<open>snb\<close> type-checks.
\<close>

lemma union_with_boolean_member_accepted:
  "fst (tc 10 unionWithBooleanPlus global initState)
     = Ret (Some (Union 1 ''snb'' [Union 0 ''sn'' [Prim ''string'', Prim ''number''], Prim ''boolean'']))"
  by code_simp

text \<open>
  C1: a union operand of an arithmetic operator is claimed to be accepted if and only if
  every option of the union is in the operator's allowed set. The union \<open>N\<close> declared
  by \<open>(type N (or number))\<close> has the single option \<open>number\<close>, which \<open>+\<close> allows, yet
  \<open>(+ x x)\<close> with \<open>x\<close> of type \<open>N\<close> is rejected: \<open>includesAll\<close> compares the number
  of options with the number of allowed types, and asks whether the union contains each
  allowed type.
\<close>

theorem union_operand_single_member_rejected:
  "fst (tc 10 singletonUnionPlus global initState) = Throw OperandMismatch"
  by code_simp

section \<open>Literals and blocks\<close>

text \<open>
  C9: in every environment and state, checking the token \<open>true\<close>, the token \<open>false\<close>
  or a native boolean returns \<open>Type.boolean\<close> and leaves the state as it is: the result
  does not depend on the environment, so no binding of these names is ever read.
\<close>

theorem boolean_tokens_skip_lookup:
  "tc (Suc n) (Str ''true'') env s = (Ret (typeProp ''boolean'' s), s) \<and>
   tc (Suc n) (Str ''false'') env s = (Ret (typeProp ''boolean'' s), s) \<and>
   tc (Suc n) (Bool b) env s = (Ret (typeProp ''boolean'' s), s)"
  by (simp add: tcStep_def isNumber_def isString_def isBoolean_def typeConst_def)

text \<open>
  C10: checking the empty block \<open>(begin)\<close> completes in every environment and returns
  \<open>undefined\<close>; its only effect is the new, empty block scope. As a whole program
  (\<open>tcGlobal\<close>) it has no effect at all.
\<close>

theorem empty_block_returns_undefined:
  "tc (Suc n) (Arr [Str ''begin'']) env s =
     (Ret None, s\<lparr>scopes := scopes s @ [\<lparr>bindings = [], parent = Some env\<rparr>]\<rparr>) \<and>
   tcGlobal n (Arr [Str ''begin'']) s = (Ret None, s)"
  by (simp add: tcStep_def isNumber_def isString_def isBoolean_def isBinary_def operatorToken_def
      isBooleanBinary_def isVariableName_def tcBlock_def tcGlobal_def tcBody_def first_def
      bnd_def ret_def lift_def newEnv_def)

section \<open>Declarations and the registry\<close>

text \<open>
  C4: every \<open>type\<close> and \<open>class\<close> declaration that reuses a registered name is claimed
  to fail, and no declaration to replace an entry. The alias form does check
  (\<open>alias_duplicate_rejected\<close> below); the union form returns before that check, and the
  class form has none. Declaring the union \<open>U\<close> twice, or the class \<open>A\<close> twice,
  succeeds both times, and the second object replaces the first in the registry; a union
  declared under the name \<open>number\<close> replaces \<open>Type.number\<close>.
\<close>

theorem redeclaration_replaces_registry_entry:
  "(let s1 = snd (tc 2 declareUnionNumber global initState);
        (r2, s2) = tc 2 declareUnionString global s1
    in typeProp ''U'' s1 = Some (Union 0 ''U'' [Prim ''number''])
       \<and> r2 = Ret (Some (Union 1 ''U'' [Prim ''string'']))
       \<and> typeProp ''U'' s2 = Some (Union 1 ''U'' [Prim ''string'']))
   \<and> (let s1 = snd (tc 2 declareClassA global initState);
          (r2, s2) = tc 2 declareClassA global s1
      in typeProp ''A'' s1 = Some (Class 0 ''A'' (Prim ''null'') 1)
         \<and> r2 = Ret (Some (Class 1 ''A'' (Prim ''null'') 2))
         \<and> typeProp ''A'' s2 = Some (Class 1 ''A'' (Prim ''null'') 2))
   \<and> (let (r, s1) = tc 2 redefineNumber global initState
      in r = Ret (Some (Union 0 ''number'' [Prim ''string'']))
         \<and> typeProp ''number'' s1 = Some (Union 0 ''number'' [Prim ''string'']))"
  by code_simp

text \<open>An alias declaration under a name that \<open>Type\<close> already has fails.\<close>

lemma alias_duplicate_rejected:
  assumes "typeHasOwnProperty name s" and "base \<noteq> Undefined" and "idx base 0 \<noteq> Str ''or''"
  shows "tcType (Arr [Str ''type'', Str name, base]) s = (Throw DuplicateType, s)"
  using assms by (simp add: tcType_def bnd_def lift_def ret_def nthU_def first_def Let_def)

text \<open>
  A class declared over a superclass name that \<open>Type\<close> does not have is a class whose
  superclass is \<open>Type.null\<close>.
\<close>

lemma class_unregistered_super:
  assumes "map_of (registry s) super = None" and "\<not> builtinKey super" and "\<not> builtinKey name"
      and "typeProp ''null'' s = Some tnull" and "env < length (scopes s)"
  shows "fst (tc (Suc n) (Arr [Str ''class'', Str name, Str super, Arr [Str ''begin'']]) env s)
           = Ret (Some (Class (nextId s) name tnull (length (scopes s))))"
  using assms
  by (simp add: tcStep_class tcClass_def newClass_def typeGet_def typeSet_def typeConst_def
      typeProp_def defineName_def newEnv_def freshId_def tcBody_def tcBlock_def first_def
      bnd_def ret_def lift_def nthU_def Let_def)

text \<open>
  C5: a class declaration whose superclass name is not registered is claimed to fail.
  \<open>Type[superClassName]\<close> is then \<open>undefined\<close>, which the constructor's default
  parameter turns into \<open>Type.null\<close>: the declaration succeeds and yields a class without
  superclass, whose scope has no parent. (The superclass name is read before the scope
  of the class is created, as claimed.)
\<close>

theorem unknown_superclass_accepted:
  "typeProp ''Bar'' initState = None
   \<and> (let (r, s1) = tc 2 classWithUnknownSuper global initState
      in r = Ret (Some (Class 0 ''Foo'' (Prim ''null'') 1))
         \<and> typeProp ''Foo'' s1 = Some (Class 0 ''Foo'' (Prim ''null'') 1)
         \<and> scopes s1 ! 1 = \<lparr>bindings = [], parent = None\<rparr>)"
  by code_simp

section \<open>Typed variable declarations\<close>

text \<open>
  C7, as stated, fails on its own example: the descriptor of \<open>(var (y (or number string)) 10)\<close>
  is an array, which is no property of \<open>Type\<close> and has no \<open>startsWith\<close> method, so
  \<open>Type.fromString\<close> throws a \<open>TypeError\<close>.
\<close>

theorem inline_union_descriptor_counterexample:
  "fst (tc 10 inlineUnionVar global initState) = Throw JSTypeError"
  by code_simp

text \<open>
  C7, amended: in a typed declaration \<open>(var (x descriptor) value)\<close> whose value checks to
  a type and whose descriptor resolves, if \<open>equals\<close>, asked of the inferred type about
  the declared type, answers false, the check fails with TypeMismatch; if it answers true,
  the check succeeds, returns the declared type and binds \<open>x\<close> to the declared type, not
  to the inferred one. So widening to a declared union succeeds: after
  \<open>(type ns (or number string))\<close>, \<open>(var (y ns) 10)\<close> type-checks and binds \<open>y\<close>
  to the union \<open>ns\<close>.
\<close>

theorem typed_var_binds_declared_type:
  assumes val: "tc n val env s = (Ret (Some vt), s1)"
      and descr: "fromString descr s1 = (Ret et, s2)"
      and eq: "equals (typeProp ''null'' s2) vt (Some et) = Inr b"
      and env: "env < length (scopes s2)"
  shows "if b
         then \<exists>s3. tc (Suc n) (Arr [Str ''var'', Arr [Str x, descr], val]) env s = (Ret (Some et), s3)
                  \<and> lookup env x s3 = (Ret (Some et), s3)
         else tc (Suc n) (Arr [Str ''var'', Arr [Str x, descr], val]) env s = (Throw TypeMismatch, s2)"
proof -
  obtain r s3 where d: "defineName env x (Some et) s2 = (r, s3)"
    by (cases "defineName env x (Some et) s2")
  from lookup_defineName [OF d env] have l: "r = Ret (Some et)" "lookup env x s3 = (Ret (Some et), s3)"
    by simp_all
  show ?thesis
    using val descr eq d l
    by (auto simp: tcStep_var tcVar_def bnd_def lift_def ret_def throw_def nthU_def expect_def equalsM_def Let_def)
qed


theorem typed_var_binds_declared_type_witness:
  "tc 1 (Num 10) global nsState = (Ret (Some (Prim ''number'')), nsState)
   \<and> fromString (Str ''ns'') nsState = (Ret nsType, nsState)
   \<and> equals (typeProp ''null'' nsState) (Prim ''number'') (Some nsType) = Inr True
   \<and> global < length (scopes nsState)
   \<and> (\<exists>s3. tc (Suc 1) (Arr [Str ''var'', Arr [Str ''y'', Str ''ns''], Num 10]) global nsState
               = (Ret (Some nsType), s3)
            \<and> lookup global ''y'' s3 = (Ret (Some nsType), s3))"
proof -
  have val: "tc 1 (Num 10) global nsState = (Ret (Some (Prim ''number'')), nsState)"
    by code_simp
  have descr: "fromString (Str ''ns'') nsState = (Ret nsType, nsState)"
    by code_simp
  have eq: "equals (typeProp ''null'' nsState) (Prim ''number'') (Some nsType) = Inr True"
    by code_simp
  have env: "global < length (scopes nsState)"
    by code_simp
  from typed_var_binds_declared_type [OF val descr eq env, of "''y''"]
  have "\<exists>s3. tc (Suc 1) (Arr [Str ''var'', Arr [Str ''y'', Str ''ns''], Num 10]) global nsState
               = (Ret (Some nsType), s3)
            \<and> lookup global ''y'' s3 = (Ret (Some nsType), s3)"
    by (simp del: tc.simps)
  with val descr eq env show ?thesis by blast
qed

section \<open>Function declarations\<close>

text \<open>
  C3: for every \<open>def\<close> that is not generic and whose declared signature resolves to the
  function type \<open>fn\<close>, checking the \<open>def\<close> is checking the \<open>var\<close>/\<open>lambda\<close> form it
  is rewritten to, in a state where the enclosing environment already binds the function's
  name to \<open>fn\<close>. \<open>fn\<close> comes from the parameter and return descriptors alone
  (\<open>signatureType\<close> does not see the body). The witness is \<open>fact\<close>: with the name
  bound beforehand its body, which calls \<open>fact\<close>, checks to the declared type; the same
  \<open>var\<close>/\<open>lambda\<close> form without that binding fails on the unbound name.
\<close>

theorem def_prebinds_signature_type:
  assumes tag: "idx exp 0 = Str ''def''"
      and nongeneric: "\<not> isGenericDefFunction exp"
      and sig: "signatureType (idx exp 2) (idx exp 4) s = (Ret fn, s1)"
      and env: "env < length (scopes s1)"
  shows "\<exists>varExp s2. transformDefToVarLambda exp = Inr varExp
           \<and> defineName env (jsString (idx exp 1)) (Some fn) s1 = (Ret (Some fn), s2)
           \<and> lookup env (jsString (idx exp 1)) s2 = (Ret (Some fn), s2)
           \<and> tc (Suc n) exp env s = tc n varExp env s2"
proof -
  from tag obtain xs where exp: "exp = Arr (Str ''def'' # xs)"
    using idx_keyword [of exp "''def''"] by auto
  obtain r s2 where d: "defineName env (jsString (idx exp 1)) (Some fn) s1 = (r, s2)"
    by (cases "defineName env (jsString (idx exp 1)) (Some fn) s1")
  from lookup_defineName [OF d env]
  have l: "r = Ret (Some fn)" "lookup env (jsString (idx exp 1)) s2 = (Ret (Some fn), s2)"
    by simp_all
  obtain varExp where t: "transformDefToVarLambda exp = Inr varExp"
    using exp nongeneric by (auto simp: transformDefToVarLambda_def)
  have "tc (Suc n) exp env s = tc n varExp env s2"
    using nongeneric sig d l t
    by (simp add: exp tcStep_def_branch tcDef_def bnd_def lift_def ret_def)
  with d l t show ?thesis by blast
qed

theorem def_prebinds_signature_type_witness:
  "idx factDef 0 = Str ''def'' \<and> \<not> isGenericDefFunction factDef
   \<and> signatureType (idx factDef 2) (idx factDef 4) initState = (Ret factType, initState)
   \<and> global < length (scopes initState)
   \<and> (\<exists>s2. lookup global ''fact'' s2 = (Ret (Some factType), s2)
           \<and> tc (Suc 9) factDef global initState = tc 9 factVarLambda global s2
           \<and> fst (tc 9 factVarLambda global s2) = Ret (Some factType))
   \<and> fst (tc 9 factVarLambda global initState) = Throw UnboundName"
proof -
  have tag: "idx factDef 0 = Str ''def''" by code_simp
  have nongeneric: "\<not> isGenericDefFunction factDef" by code_simp
  have sig: "signatureType (idx factDef 2) (idx factDef 4) initState = (Ret factType, initState)"
    by code_simp
  have env: "global < length (scopes initState)" by code_simp
  have name: "jsString (idx factDef 1) = ''fact''" by code_simp
  have tr: "transformDefToVarLambda factDef = Inr factVarLambda" by code_simp
  have bound: "fst (tc 9 factVarLambda global (snd (defineName global ''fact'' (Some factType) initState)))
                 = Ret (Some factType)"
    by code_simp
  have unbound: "fst (tc 9 factVarLambda global initState) = Throw UnboundName"
    by code_simp
  from def_prebinds_signature_type [OF tag nongeneric sig env, of 9]
  obtain varExp s2 where
    "transformDefToVarLambda factDef = Inr varExp"
    "defineName global (jsString (idx factDef 1)) (Some factType) initState = (Ret (Some factType), s2)"
    "lookup global (jsString (idx factDef 1)) s2 = (Ret (Some factType), s2)"
    "tc (Suc 9) factDef global initState = tc 9 varExp global s2"
    by blast
  with tr name bound
  have "lookup global ''fact'' s2 = (Ret (Some factType), s2)
          \<and> tc (Suc 9) factDef global initState = tc 9 factVarLambda global s2
          \<and> fst (tc 9 factVarLambda global s2) = Ret (Some factType)"
    by (auto simp del: tc.simps)
  with tag nongeneric sig env unbound show ?thesis by blast
qed

section \<open>Calls of generic functions\<close>

lemma map_of_fold_update:
  assumes "distinct gs" and "n \<le> length gs" and "i < length gs"
  shows "map_of (fold (\<lambda>j m. AList.update (gs ! j) (v j) m) [0..<n] []) (gs ! i)
           = (if i < n then Some (v i) else None)"
  using assms(2)
proof (induction n)
  case 0
  then show ?case by simp
next
  case (Suc n)
  then show ?case
    using assms(1,3) by (auto simp: update_conv' nth_eq_iff_index_eq)
qed

lemma genericTypesMap_positional:
  "distinct gs \<Longrightarrow> i < length gs \<Longrightarrow>
     map_of (getGenericTypesMap gs as) (gs ! i)
       = Some (if i < length as then Str (as ! i) else Undefined)"
  unfolding getGenericTypesMap_def
  using map_of_fold_update [of gs "length gs" i "\<lambda>j. if j < length as then Str (as ! j) else Undefined"]
  by simp

lemma genericTypesMap_surplus:
  "length gs \<le> length as \<Longrightarrow> getGenericTypesMap gs (as @ extra) = getGenericTypesMap gs as"
  unfolding getGenericTypesMap_def
  by (rule fold_cong) (auto simp: nth_append)

text \<open>
  C6, as stated, fails where it says that a wrong number of actual types is an error:
  \<open>((lambda <T> ((x T)) -> T x) <number,string> 5)\<close> supplies two actual types for one
  generic parameter, and a function declared over \<open><T,U>\<close> is called with \<open><number>\<close>
  alone; both calls check to \<open>number\<close>.
\<close>

theorem actual_type_count_counterexample:
  "fst (tc 10 surplusTypesCall global initState) = Ret (Some (Prim ''number''))
   \<and> fst (tc 10 missingTypeCall global initState) = Ret (Some (Prim ''number''))"
  by code_simp

text \<open>
  C6, amended: at every call whose head checks to a generic function, the second element
  of the call must read as a bracketed list \<open><...>\<close>, else the check fails with the
  error for missing actual types; when it does, the body is checked under the substitution
  built from the comma-separated actual types, matched by position to the generic
  parameter names: the i-th (distinct) generic parameter is mapped to the i-th actual
  type, or to \<open>undefined\<close> when there is none, and actual types beyond the generic
  parameters change nothing. The number of actual types is not checked.
\<close>

theorem generic_call_actual_types:
  assumes form: "isCallForm (Arr xs)"
      and head: "tc n (idx (Arr xs) 0) env s = (Ret (Some (GenericFunction nm gs ps r b fenv)), s1)"
  shows "(\<not> bracketed (jsString (idx (Arr xs) 1)) \<longrightarrow>
            tc (Suc n) (Arr xs) env s = (Throw NoActualTypes, s1))
       \<and> (bracketed (jsString (idx (Arr xs) 1)) \<longrightarrow>
            tc (Suc n) (Arr xs) env s =
              bnd (bindFunctionTypes ps r
                     (getGenericTypesMap gs (splitComma (butlast (drop 1 (jsString (idx (Arr xs) 1)))))))
                (\<lambda>bound. bnd (tcFunction (tc n) (fst bound) (snd bound) b fenv) (\<lambda>actualFn.
                         bnd (mapM (\<lambda>arg. tc n arg env) (drop 2 xs)) (\<lambda>argTypes.
                         checkFunctionCall actualFn argTypes))) s1)
       \<and> (\<forall>as i. distinct gs \<longrightarrow> i < length gs \<longrightarrow>
             map_of (getGenericTypesMap gs as) (gs ! i)
               = Some (if i < length as then Str (as ! i) else Undefined))
       \<and> (\<forall>as extra. length gs \<le> length as \<longrightarrow>
             getGenericTypesMap gs (as @ extra) = getGenericTypesMap gs as)"
proof -
  have step: "tc (Suc n) (Arr xs) env s
      = bnd (bnd (extractActualCallTypes (Arr xs)) (\<lambda>actualTypes.
              bnd (bindFunctionTypes ps r (getGenericTypesMap gs actualTypes)) (\<lambda>(boundParams, boundReturnType).
              bnd (tcFunction (tc n) boundParams boundReturnType b fenv) (\<lambda>actualFn.
              ret (actualFn, drop 2 xs)))))
          (\<lambda>(actualFn, argValues).
              bnd (mapM (\<lambda>arg. tc n arg env) argValues) (\<lambda>argTypes.
              checkFunctionCall actualFn argTypes)) s1"
    using head by (simp add: tcStep_call [OF form] tcCall_def lift_def bnd_Ret)
  have absent: "\<not> bracketed (jsString (idx (Arr xs) 1)) \<Longrightarrow>
      tc (Suc n) (Arr xs) env s = (Throw NoActualTypes, s1)"
    unfolding step by (simp add: extractActualCallTypes_def) (simp add: throw_def)
  have present: "bracketed (jsString (idx (Arr xs) 1)) \<Longrightarrow>
      tc (Suc n) (Arr xs) env s =
        bnd (bindFunctionTypes ps r
               (getGenericTypesMap gs (splitComma (butlast (drop 1 (jsString (idx (Arr xs) 1)))))))
          (\<lambda>bound. bnd (tcFunction (tc n) (fst bound) (snd bound) b fenv) (\<lambda>actualFn.
                   bnd (mapM (\<lambda>arg. tc n arg env) (drop 2 xs)) (\<lambda>argTypes.
                   checkFunctionCall actualFn argTypes))) s1"
    unfolding step by (simp add: extractActualCallTypes_def bnd_assoc split_def)
  show ?thesis
    using absent present genericTypesMap_positional genericTypesMap_surplus by blast
qed


theorem generic_call_actual_types_witness:
  "isCallForm (Arr [identityLambda, Num 5])
   \<and> tc 1 (idx (Arr [identityLambda, Num 5]) 0) global initState = (Ret (Some identityType), initState)
   \<and> tc (Suc 1) (Arr [identityLambda, Num 5]) global initState = (Throw NoActualTypes, initState)
   \<and> map_of (getGenericTypesMap [''T''] [''number'', ''string'']) ''T'' = Some (Str ''number'')
   \<and> getGenericTypesMap [''T''] ([''number''] @ [''string'']) = getGenericTypesMap [''T''] [''number'']"
proof -
  have form: "isCallForm (Arr [identityLambda, Num 5])"
    by code_simp
  have head: "tc 1 (idx (Arr [identityLambda, Num 5]) 0) global initState
                = (Ret (Some (GenericFunction ''lambda <T>'' [''T''] (Arr [Arr [Str ''x'', Str ''T'']])
                     (Str ''T'') (Str ''x'') global)), initState)"
    by code_simp
  have plain: "\<not> bracketed (jsString (idx (Arr [identityLambda, Num 5]) 1))"
    by code_simp
  note call = generic_call_actual_types [OF form head]
  from call plain
  have absent: "tc (Suc 1) (Arr [identityLambda, Num 5]) global initState = (Throw NoActualTypes, initState)"
    by blast
  from call
  have "distinct [''T''] \<longrightarrow> 0 < length [''T''] \<longrightarrow>
          map_of (getGenericTypesMap [''T''] [''number'', ''string'']) ([''T''] ! 0)
            = Some (if 0 < length [''number'', ''string''] then Str ([''number'', ''string''] ! 0) else Undefined)"
    by blast
  then have positional:
    "map_of (getGenericTypesMap [''T''] [''number'', ''string'']) ''T'' = Some (Str ''number'')"
    by simp
  from call
  have "length [''T''] \<le> length [''number''] \<longrightarrow>
          getGenericTypesMap [''T''] ([''number''] @ [''string'']) = getGenericTypesMap [''T''] [''number'']"
    by blast
  then have surplus:
    "getGenericTypesMap [''T''] ([''number''] @ [''string'']) = getGenericTypesMap [''T''] [''number'']"
    by simp
  from form head absent positional surplus show ?thesis
    unfolding identityType_def by blast
qed


section \<open>Which scopes a check can change\<close>

subsection \<open>Steps that leave the scopes alone\<close>

lemma kept_ret [kept_intros]: "scopesKept (ret x)"
  by (simp add: scopesKept_def ret_def)

lemma kept_throw [kept_intros]: "scopesKept (throw e)"
  by (simp add: scopesKept_def throw_def)

lemma kept_timeout [kept_intros]: "scopesKept timeout"
  by (simp add: scopesKept_def timeout_def)

lemma kept_lift [kept_intros]: "scopesKept (lift r)"
  by (cases r) (simp_all add: lift_def kept_intros)

lemma kept_bnd [kept_intros]:
  "scopesKept m \<Longrightarrow> (\<And>x. scopesKept (f x)) \<Longrightarrow> scopesKept (bnd m f)"
  unfolding scopesKept_def bnd_def
  by (fastforce split: prod.splits outcome.splits)

lemma kept_mapM [kept_intros]: "(\<And>x. scopesKept (f x)) \<Longrightarrow> scopesKept (mapM f xs)"
  by (induction xs) (simp_all add: kept_intros)

lemma kept_typeConst [kept_intros]: "scopesKept (typeConst k)"
  by (simp add: scopesKept_def typeConst_def)

lemma kept_equalsM [kept_intros]: "scopesKept (equalsM a b)"
  unfolding equalsM_def scopesKept_def lift_def
  by (auto simp: ret_def throw_def split: sum.splits)

lemma kept_expect [kept_intros]: "scopesKept (expect a b)"
  unfolding expect_def by (auto intro!: kept_intros split: option.splits)

lemma kept_checkArity [kept_intros]: "scopesKept (checkArity e n)"
  unfolding checkArity_def by (auto intro!: kept_intros split: option.splits)

lemma kept_getOperandTypesForOperator [kept_intros]: "scopesKept (getOperandTypesForOperator e)"
  by (simp add: scopesKept_def getOperandTypesForOperator_def)

lemma kept_expectOperatorType [kept_intros]: "scopesKept (expectOperatorType t ts)"
  unfolding expectOperatorType_def
  by (rule kept_bnd) (auto simp: scopesKept_def lift_def ret_def throw_def split: sum.splits intro!: kept_intros)

lemma kept_typeGet [kept_intros]: "scopesKept (typeGet k)"
  by (auto simp: scopesKept_def typeGet_def split: option.splits if_splits)

lemma kept_typeSet [kept_intros]: "scopesKept (typeSet k t)"
  by (auto simp: scopesKept_def typeSet_def split: if_splits)

lemma kept_freshId [kept_intros]: "scopesKept freshId"
  by (auto simp: scopesKept_def freshId_def)

lemma kept_lookup [kept_intros]: "scopesKept (lookup a x)"
  unfolding lookup_def scopesKept_def lift_def
  by (auto simp: ret_def throw_def split: sum.splits)

lemma kept_fromStringNested [kept_intros]: "scopesKept (fromStringNested x)"
  by (auto simp: scopesKept_def fromStringNested_def split: option.splits if_splits)

lemma kept_functionFromString [kept_intros]: "scopesKept (functionFromString x)"
  unfolding functionFromString_def
  by (auto intro!: kept_intros split: option.splits)

lemma kept_fromString [kept_intros]: "scopesKept (fromString x)"
proof -
  have "\<And>str. scopesKept (functionFromString str)" by (rule kept_functionFromString)
  then show ?thesis
    unfolding fromString_def scopesKept_def
    by (auto split: option.splits if_splits exp.splits)
qed

lemma kept_newUnion [kept_intros]: "scopesKept (newUnion n ts)"
  unfolding newUnion_def by (auto intro!: kept_intros split: exp.splits)

lemma kept_newAlias [kept_intros]: "scopesKept (newAlias n p)"
  unfolding newAlias_def by (auto intro!: kept_intros split: exp.splits option.splits)

lemma kept_getField [kept_intros]: "scopesKept (getField t n)"
  unfolding getField_def by (auto intro!: kept_intros split: option.splits ty.splits)

lemma kept_checkArgument [kept_intros]: "scopesKept (checkArgument p)"
  unfolding checkArgument_def by (auto intro!: kept_intros split: prod.splits)

lemma kept_checkFunctionCall [kept_intros]: "scopesKept (checkFunctionCall f ts)"
  unfolding checkFunctionCall_def by (auto intro!: kept_intros split: option.splits ty.splits)

lemma kept_extractActualCallTypes [kept_intros]: "scopesKept (extractActualCallTypes e)"
  unfolding extractActualCallTypes_def by (auto intro!: kept_intros)

lemma kept_bindFunctionTypes [kept_intros]: "scopesKept (bindFunctionTypes p r m)"
  unfolding bindFunctionTypes_def by (auto intro!: kept_intros)

lemma kept_isTypeCastCondition [kept_intros]: "scopesKept (isTypeCastCondition c)"
  unfolding isTypeCastCondition_def by (auto intro!: kept_intros)

lemma kept_getSpecifiedType [kept_intros]: "scopesKept (getSpecifiedType c)"
  unfolding getSpecifiedType_def by (auto intro!: kept_intros)

lemma kept_paramEntry [kept_intros]: "scopesKept (paramEntry p)"
  unfolding paramEntry_def by (auto intro!: kept_intros)

lemma kept_signatureType [kept_intros]: "scopesKept (signatureType p r)"
  unfolding signatureType_def by (auto intro!: kept_intros)

lemma kept_tcSuper [kept_intros]: "scopesKept (tcSuper e)"
  unfolding tcSuper_def by (auto intro!: kept_intros split: option.splits ty.splits)

lemma kept_createGenericFunctionType [kept_intros]: "scopesKept (createGenericFunctionType e a)"
  unfolding createGenericFunctionType_def by (auto intro!: kept_intros simp: Let_def split: exp.splits)

lemma kept_tcType [kept_intros]: "scopesKept (tcType e)"
proof -
  have aliasCase: "\<And>name base. scopesKept (bnd (typeGet (jsString base)) (\<lambda>par.
            bnd (newAlias name par) (\<lambda>a.
            bnd (typeSet (jsString name) a) (\<lambda>_.
            ret (Some a)))))"
    by (auto intro!: kept_intros)
  show ?thesis
    unfolding tcType_def Let_def
    apply (intro kept_bnd kept_lift)
    apply (auto intro!: kept_intros)
    using aliasCase apply (auto simp: scopesKept_def)
    done
qed



lemma keeps_refl: "keeps a k s s"
  by (simp add: keeps_def)

lemma keeps_trans: "keeps a k s s1 \<Longrightarrow> keeps a k s1 s2 \<Longrightarrow> keeps a k s s2"
  by (auto simp: keeps_def)

lemma confined_kept: "scopesKept m \<Longrightarrow> confined a k m"
  by (auto simp: scopesKept_def confined_def keeps_def)

lemmas confined_steps [confined_intros] =
  kept_ret [THEN confined_kept] kept_throw [THEN confined_kept] kept_timeout [THEN confined_kept]
  kept_lift [THEN confined_kept] kept_typeConst [THEN confined_kept]
  kept_equalsM [THEN confined_kept] kept_expect [THEN confined_kept]
  kept_checkArity [THEN confined_kept] kept_getOperandTypesForOperator [THEN confined_kept]
  kept_expectOperatorType [THEN confined_kept] kept_typeGet [THEN confined_kept]
  kept_typeSet [THEN confined_kept] kept_freshId [THEN confined_kept]
  kept_lookup [THEN confined_kept] kept_fromString [THEN confined_kept]
  kept_newUnion [THEN confined_kept] kept_newAlias [THEN confined_kept]
  kept_getField [THEN confined_kept] kept_checkFunctionCall [THEN confined_kept]
  kept_extractActualCallTypes [THEN confined_kept] kept_bindFunctionTypes [THEN confined_kept]
  kept_isTypeCastCondition [THEN confined_kept] kept_getSpecifiedType [THEN confined_kept]
  kept_paramEntry [THEN confined_kept] kept_signatureType [THEN confined_kept]
  kept_tcSuper [THEN confined_kept] kept_createGenericFunctionType [THEN confined_kept]
  kept_tcType [THEN confined_kept]

lemma confined_bnd [confined_intros]:
  assumes "confined a k m" and "\<And>x. confined a k (f x)"
  shows "confined a k (bnd m f)"
  unfolding confined_def
proof (intro allI impI)
  fix s r s'
  assume k: "k \<le> length (scopes s)" and run: "bnd m f s = (r, s')"
  obtain r1 s1 where m: "m s = (r1, s1)" by (cases "m s")
  with assms(1) k have k1: "keeps a k s s1" by (auto simp: confined_def)
  then have len: "k \<le> length (scopes s1)" using k by (simp add: keeps_def)
  show "keeps a k s s'"
  proof (cases r1)
    case (Ret x)
    with run m have "f x s1 = (r, s')" by (simp add: bnd_def)
    with assms(2) len have "keeps a k s1 s'" by (auto simp: confined_def)
    with k1 show ?thesis by (rule keeps_trans)
  next
    case (Throw e)
    with run m k1 show ?thesis by (simp add: bnd_def)
  next
    case Timeout
    with run m k1 show ?thesis by (simp add: bnd_def)
  qed
qed

lemma confined_mapM [confined_intros]:
  "(\<And>x. confined a k (f x)) \<Longrightarrow> confined a k (mapM f xs)"
  by (induction xs) (auto intro!: confined_intros)

lemma confined_blockLoop [confined_intros]:
  "(\<And>x. confined a k (f x)) \<Longrightarrow> confined a k (blockLoop f r xs)"
  by (induction xs arbitrary: r) (auto intro!: confined_intros)

lemma confined_newEnv_bnd:
  assumes "\<And>c. k \<le> c \<Longrightarrow> confined a k (f c)"
  shows "confined a k (bnd (newEnv record par) f)"
  unfolding confined_def
proof (intro allI impI)
  fix s r s'
  assume k: "k \<le> length (scopes s)" and run: "bnd (newEnv record par) f s = (r, s')"
  let ?s1 = "s\<lparr>scopes := scopes s @ [\<lparr>bindings = record, parent = par\<rparr>]\<rparr>"
  from run have "f (length (scopes s)) ?s1 = (r, s')"
    by (simp add: bnd_def newEnv_def)
  with assms [OF k] k have "keeps a k ?s1 s'"
    by (auto simp: confined_def)
  moreover have "keeps a k s ?s1"
    using k by (auto simp: keeps_def nth_append)
  ultimately show "keeps a k s s'" by (rule keeps_trans [rotated])
qed

lemma confined_defineName [confined_intros]: "confined a k (defineName a x t)"
  by (auto simp: confined_def defineName_def keeps_def split: if_splits)

lemma confined_fresh: "confined c k m \<Longrightarrow> k \<le> c \<Longrightarrow> confined a k m"
  by (auto simp: confined_def keeps_def)

lemma framedD: "framed tcr \<Longrightarrow> confined a k (tcr e a)"
  by (simp add: framed_def)

lemma confined_binary:
  assumes "framed tcr" shows "confined a k (binary tcr e a)"
  unfolding binary_def by (intro confined_intros framedD [OF assms])

lemma confined_booleanBinary:
  assumes "framed tcr" shows "confined a k (booleanBinary tcr e a)"
  unfolding booleanBinary_def by (intro confined_intros framedD [OF assms])

lemma confined_tcBlock:
  assumes "framed tcr" shows "confined a k (tcBlock tcr e a)"
  unfolding tcBlock_def by (intro confined_intros framedD [OF assms])

lemma confined_tcBody:
  assumes "framed tcr" shows "confined a k (tcBody tcr e a)"
  unfolding tcBody_def
  by (auto intro!: confined_intros framedD [OF assms] confined_tcBlock [OF assms])

lemma confined_tcBody_fresh:
  "framed tcr \<Longrightarrow> k \<le> c \<Longrightarrow> confined a k (tcBody tcr e c)"
  by (rule confined_fresh [OF confined_tcBody])

lemma confined_tcFunction:
  assumes "framed tcr" shows "confined a k (tcFunction tcr ps r body env)"
  unfolding tcFunction_def
  by (intro confined_bnd confined_newEnv_bnd confined_tcBody_fresh [OF assms])
    (auto intro!: confined_intros)

lemma confined_tcCall:
  assumes "framed tcr" shows "confined a k (tcCall tcr e a)"
  unfolding tcCall_def
  by (auto intro!: confined_intros framedD [OF assms] confined_tcFunction [OF assms]
      split: option.splits ty.splits prod.splits)


lemma confinedTo_ret: "P x \<Longrightarrow> confinedTo a k P (ret x)"
  by (simp add: confinedTo_def ret_def keeps_refl)

lemma confinedTo_throw: "confinedTo a k P (throw e)"
  by (simp add: confinedTo_def throw_def keeps_refl)

lemma confinedTo_newEnv: "confinedTo a k (\<lambda>c. k \<le> c) (newEnv record par)"
  by (auto simp: confinedTo_def newEnv_def keeps_def nth_append)

lemma confinedTo_weaken: "confinedTo a k P m \<Longrightarrow> (\<And>x. P x \<Longrightarrow> Q x) \<Longrightarrow> confinedTo a k Q m"
  by (auto simp: confinedTo_def)

lemma confinedTo_bnd:
  assumes "confined a k m" and "\<And>x. confinedTo a k P (f x)"
  shows "confinedTo a k P (bnd m f)"
  unfolding confinedTo_def
proof (intro allI impI)
  fix s r s'
  assume k: "k \<le> length (scopes s)" and run: "bnd m f s = (r, s')"
  obtain r1 s1 where m: "m s = (r1, s1)" by (cases "m s")
  with assms(1) k have k1: "keeps a k s s1" by (auto simp: confined_def)
  then have len: "k \<le> length (scopes s1)" using k by (simp add: keeps_def)
  show "keeps a k s s' \<and> (\<forall>x. r = Ret x \<longrightarrow> P x)"
  proof (cases r1)
    case (Ret x)
    with run m have "f x s1 = (r, s')" by (simp add: bnd_def)
    with assms(2) len have "keeps a k s1 s' \<and> (\<forall>x. r = Ret x \<longrightarrow> P x)"
      by (auto simp: confinedTo_def)
    with k1 show ?thesis by (auto intro: keeps_trans)
  next
    case (Throw e)
    with run m k1 show ?thesis by (auto simp: bnd_def)
  next
    case Timeout
    with run m k1 show ?thesis by (auto simp: bnd_def)
  qed
qed

lemma confined_bnd_post:
  assumes "confinedTo a k P m" and "\<And>x. P x \<Longrightarrow> confined a k (f x)"
  shows "confined a k (bnd m f)"
  unfolding confined_def
proof (intro allI impI)
  fix s r s'
  assume k: "k \<le> length (scopes s)" and run: "bnd m f s = (r, s')"
  obtain r1 s1 where m: "m s = (r1, s1)" by (cases "m s")
  with assms(1) k have k1: "keeps a k s s1" and p: "\<And>x. r1 = Ret x \<Longrightarrow> P x"
    by (auto simp: confinedTo_def)
  then have len: "k \<le> length (scopes s1)" using k by (simp add: keeps_def)
  show "keeps a k s s'"
  proof (cases r1)
    case (Ret x)
    with run m have "f x s1 = (r, s')" by (simp add: bnd_def)
    with assms(2) [OF p [OF Ret]] len have "keeps a k s1 s'" by (auto simp: confined_def)
    with k1 show ?thesis by (rule keeps_trans)
  next
    case (Throw e)
    with run m k1 show ?thesis by (simp add: bnd_def)
  next
    case Timeout
    with run m k1 show ?thesis by (simp add: bnd_def)
  qed
qed

lemma confinedTo_bnd_post:
  assumes "confinedTo a k Q m" and "\<And>x. Q x \<Longrightarrow> confinedTo a k P (f x)"
  shows "confinedTo a k P (bnd m f)"
  unfolding confinedTo_def
proof (intro allI impI)
  fix s r s'
  assume k: "k \<le> length (scopes s)" and run: "bnd m f s = (r, s')"
  obtain r1 s1 where m: "m s = (r1, s1)" by (cases "m s")
  with assms(1) k have k1: "keeps a k s s1" and q: "\<And>x. r1 = Ret x \<Longrightarrow> Q x"
    by (auto simp: confinedTo_def)
  then have len: "k \<le> length (scopes s1)" using k by (simp add: keeps_def)
  show "keeps a k s s' \<and> (\<forall>x. r = Ret x \<longrightarrow> P x)"
  proof (cases r1)
    case (Ret x)
    with run m have "f x s1 = (r, s')" by (simp add: bnd_def)
    with assms(2) [OF q [OF Ret]] len have "keeps a k s1 s' \<and> (\<forall>x. r = Ret x \<longrightarrow> P x)"
      by (auto simp: confinedTo_def)
    with k1 show ?thesis by (auto intro: keeps_trans)
  next
    case (Throw e)
    with run m k1 show ?thesis by (auto simp: bnd_def)
  next
    case Timeout
    with run m k1 show ?thesis by (auto simp: bnd_def)
  qed
qed

lemma confinedTo_classObject:
  "confinedTo a k (classAbove k)
     (bnd (newEnv [] par) (\<lambda>e. bnd freshId (\<lambda>i. ret (Class i n sc e))))"
  by (rule confinedTo_bnd_post [OF confinedTo_newEnv])
    (auto intro!: confinedTo_bnd confined_intros confinedTo_ret)

lemma confinedTo_newClass: "confinedTo a k (classAbove k) (newClass name superClassArg)"
  unfolding newClass_def
  by (intro confinedTo_bnd)
    (auto intro!: confined_intros confinedTo_throw confinedTo_classObject
      split: exp.splits option.splits)

lemma confined_tcClass:
  assumes "framed tcr" shows "confined a k (tcClass tcr e a)"
proof -
  have body: "\<And>cls x name.
      classAbove k cls \<Longrightarrow>
      confined a k (case cls of
          Class i n s classEnv \<Rightarrow> bnd (tcBody tcr x classEnv) (\<lambda>_. ret (Some cls))
        | _ \<Rightarrow> throw Unmodelled)"
    by (auto intro!: confined_intros confined_tcBody_fresh [OF assms] split: ty.splits)
  show ?thesis
    unfolding tcClass_def Let_def
    by (intro confined_bnd confined_bnd_post [OF confinedTo_newClass] confined_intros body)
qed

lemma confined_tcNew:
  assumes "framed tcr" shows "confined a k (tcNew tcr e a)"
  unfolding tcNew_def
  by (auto intro!: confined_intros framedD [OF assms])

lemma confined_tcProp:
  assumes "framed tcr" shows "confined a k (tcProp tcr e a)"
  unfolding tcProp_def
  by (auto intro!: confined_intros framedD [OF assms])

lemma confined_tcVar:
  assumes "framed tcr" shows "confined a k (tcVar tcr e a)"
  unfolding tcVar_def Let_def
  by (auto intro!: confined_intros framedD [OF assms] split: exp.splits)

lemma confined_tcSet:
  assumes "framed tcr" shows "confined a k (tcSet tcr e a)"
  unfolding tcSet_def Let_def
  by (auto intro!: confined_intros framedD [OF assms])

lemma confinedTo_consequentEnv:
  "confinedTo a k (\<lambda>c. c = a \<or> k \<le> c) (consequentEnv condition a)"
  unfolding consequentEnv_def
  by (intro confinedTo_bnd)
    (auto intro!: confined_intros confinedTo_bnd confinedTo_ret
      confinedTo_newEnv [THEN confinedTo_weaken] simp: split_def)

lemma confined_tcIf:
  assumes "framed tcr" shows "confined a k (tcIf tcr e a)"
proof -
  have branch: "\<And>c x. c = a \<or> k \<le> c \<Longrightarrow> confined a k (tcr x c)"
    using framedD [OF assms] confined_fresh [OF framedD [OF assms]] by blast
  show ?thesis
    unfolding tcIf_def Let_def
    by (intro confined_bnd confined_bnd_post [OF confinedTo_consequentEnv] confined_intros
        framedD [OF assms] branch)
qed

lemma confined_tcWhile:
  assumes "framed tcr" shows "confined a k (tcWhile tcr e a)"
  unfolding tcWhile_def Let_def
  by (intro confined_intros framedD [OF assms])

lemma confined_tcDef:
  assumes "framed tcr" shows "confined a k (tcDef tcr e a)"
  unfolding tcDef_def
  by (auto intro!: confined_intros framedD [OF assms])

lemma confined_tcLambda:
  assumes "framed tcr" shows "confined a k (tcLambda tcr e a)"
  unfolding tcLambda_def createSimpleFunctionType_def
  by (auto intro!: confined_intros confined_tcFunction [OF assms])

lemma confined_begin:
  assumes "framed tcr"
  shows "confined a k (bnd (newEnv [] (Some a)) (\<lambda>blockEnv. tcBlock tcr e blockEnv))"
  by (intro confined_newEnv_bnd confined_fresh [OF confined_tcBlock [OF assms]])

lemma confined_if:
  "(c \<Longrightarrow> confined a k m) \<Longrightarrow> (\<not> c \<Longrightarrow> confined a k m') \<Longrightarrow> confined a k (if c then m else m')"
  by simp

lemma framed_tcStep:
  assumes "framed tcr" shows "framed (tcStep tcr)"
  unfolding framed_def
proof (intro allI)
  fix e a k
  have call: "confined a k (case e of Arr xs \<Rightarrow> tcCall tcr e a | _ \<Rightarrow> throw UnknownExpression)"
    by (cases e) (auto intro!: confined_intros confined_tcCall [OF assms])
  show "confined a k (tcStep tcr e a)"
    unfolding tcStep_def
    by (intro confined_if confined_intros confined_binary confined_booleanBinary confined_tcClass
        confined_tcNew confined_tcProp confined_tcVar confined_tcSet confined_begin confined_tcIf
        confined_tcWhile confined_tcDef confined_tcLambda call assms)
qed

lemma framed_tc: "framed (tc n)"
proof (induction n)
  case 0
  show ?case by (auto simp: framed_def intro!: confined_intros)
next
  case (Suc n)
  then show ?case by (simp add: framed_tcStep)
qed

text \<open>Checking an expression in a scope leaves every other existing scope as it is.\<close>

lemma tc_keeps_other_scopes:
  assumes "tc n e a s = (r, s')" and "b < length (scopes s)" and "b \<noteq> a"
  shows "scopes s' ! b = scopes s ! b"
proof -
  have "confined a (length (scopes s)) (tc n e a)"
    using framed_tc [of n] by (simp add: framed_def)
  with assms show ?thesis
    by (auto simp: confined_def keeps_def)
qed

lemma tc_fresh_keeps_scopes:
  assumes "tc n e c s = (r, s')" and "k \<le> c" and "k \<le> length (scopes s)" and "b < k"
  shows "scopes s' ! b = scopes s ! b"
proof -
  have "confined c k (tc n e c)"
    using framed_tc [of n] by (simp add: framed_def)
  with assms show ?thesis
    by (auto simp: confined_def keeps_def)
qed

section \<open>Narrowing in conditionals\<close>

lemma kept_tc_atom: "scopesKept (tc n (Str x) a) \<and> scopesKept (tc n Undefined a)"
proof (induction n arbitrary: x)
  case 0
  show ?case by (simp add: kept_intros)
next
  case (Suc n)
  have sub: "scopesKept (tc n (idx (Str x) i) a)" for i
    using Suc by simp
  have bin: "scopesKept (binary (tc n) (Str x) a)"
    unfolding binary_def by (intro kept_intros sub)
  have bb: "scopesKept (booleanBinary (tc n) (Str x) a)"
    unfolding booleanBinary_def by (intro kept_intros sub)
  have str: "scopesKept (tc (Suc n) (Str x) a)"
    by (simp add: tcStep_def kept_intros bin bb)
  have und: "scopesKept (tc (Suc n) Undefined a)"
    by (simp add: tcStep_def isNumber_def isString_def isBoolean_def kept_intros)
  from str und show ?case by simp
qed

lemma bnd_RetE:
  assumes "bnd m f s = (Ret y, s')"
  obtains x s1 where "m s = (Ret x, s1)" and "f x s1 = (Ret y, s')"
  using assms by (auto simp: bnd_def split: prod.splits outcome.splits)

lemma expect_state: "expect a b s = (r, s') \<Longrightarrow> s' = s"
  by (auto simp: expect_def equalsM_def bnd_def lift_def ret_def throw_def
      split: option.splits sum.splits if_splits)

lemma expect_Ret: "expect a b s = (Ret r, s') \<Longrightarrow> r = a"
  by (auto simp: expect_def equalsM_def bnd_def lift_def ret_def throw_def
      split: option.splits sum.splits if_splits)

lemma lookupIn_agree:
  assumes "k \<le> length sc" and "k \<le> length sc'" and "\<forall>b<k. sc' ! b = sc ! b"
  shows "a < k \<Longrightarrow> lookupIn sc' a y = lookupIn sc a y"
proof (induction a rule: less_induct)
  case (less a)
  have same: "sc' ! a = sc ! a" using assms(3) less.prems by simp
  have la: "a < length sc" "a < length sc'" using assms(1,2) less.prems by simp_all
  show ?case
  proof (cases "map_of (bindings (sc ! a)) y")
    case (Some t)
    then show ?thesis
      using la same by (subst (1 2) lookupIn.simps) simp
  next
    case None
    show ?thesis
    proof (cases "parent (sc ! a)")
      case None
      with \<open>map_of (bindings (sc ! a)) y = None\<close> show ?thesis
        using la same by (subst (1 2) lookupIn.simps) simp
    next
      case (Some p)
      show ?thesis
      proof (cases "p < a")
        case True
        then have "lookupIn sc' p y = lookupIn sc p y"
          using less.IH [of p] less.prems by simp
        with True Some \<open>map_of (bindings (sc ! a)) y = None\<close> show ?thesis
          using la same by (subst (1 2) lookupIn.simps) simp
      next
        case False
        with Some \<open>map_of (bindings (sc ! a)) y = None\<close> show ?thesis
          using la same by (subst (1 2) lookupIn.simps) simp
      qed
    qed
  qed
qed


lemma tcStep_if:
  "tcStep tcr (Arr (Str ''if'' # rest)) env = tcIf tcr (Arr (Str ''if'' # rest)) env"
  by (simp add: tcStep_def isNumber_def isString_def isBoolean_def isBinary_def operatorToken_def
      isBooleanBinary_def isVariableName_def)

lemma confined_tc_atom: "confined a k (tc n (Str x) env)"
  using kept_tc_atom [of n x env] by (simp add: confined_kept)

lemma typeof_call_untouched: "confined k k (tc n (Arr [Str ''typeof'', Str x]) env)"
proof (cases n)
  case 0
  then show ?thesis by (simp add: confined_intros)
next
  case (Suc m)
  have form: "isCallForm (Arr [Str ''typeof'', Str x])"
    by (simp add: isCallForm_def isBinary_def operatorToken_def isBooleanBinary_def keywordTags_def)
  have mid: "confinedTo k k (\<lambda>p. snd p = [Str x] \<or> snd p = [])
      (case fn of
         Some (GenericFunction n genericTypes params returnType body fenv) \<Rightarrow>
           bnd (extractActualCallTypes (Arr [Str ''typeof'', Str x])) (\<lambda>actualTypes.
           bnd (bindFunctionTypes params returnType
                  (getGenericTypesMap genericTypes actualTypes)) (\<lambda>(boundParams, boundReturnType).
           bnd (tcFunction (tc m) boundParams boundReturnType body fenv) (\<lambda>actualFn.
           ret (actualFn, drop 2 [Str ''typeof'', Str x]))))
       | _ \<Rightarrow> ret (fn, drop 1 [Str ''typeof'', Str x]))" for fn
    by (auto intro!: confinedTo_bnd confinedTo_ret confined_intros
        confined_tcFunction [OF framed_tc] split: option.splits ty.splits prod.splits)
  have fin: "confined k k (case p of (actualFn, argValues) \<Rightarrow>
        bnd (mapM (\<lambda>arg. tc m arg env) argValues) (\<lambda>argTypes.
        checkFunctionCall actualFn argTypes))"
    if "snd p = [Str x] \<or> snd p = []" for p
  proof -
    from that obtain actualFn where "p = (actualFn, [Str x]) \<or> p = (actualFn, [])"
      by (cases p) auto
    then show ?thesis
      by (elim disjE; simp; intro confined_bnd confined_tc_atom confined_intros)
  qed
  have "confined k k (tcCall (tc m) (Arr [Str ''typeof'', Str x]) env)"
    apply (simp add: tcCall_def lift_def)
    apply (intro confined_bnd_post [OF mid] confined_bnd fin confined_tc_atom)
    apply assumption
    done
  with Suc show ?thesis by (simp add: tcStep_call [OF form])
qed

lemma typeof_test_untouched:
  "confined k k (tc n (Arr [Str ''=='', Arr [Str ''typeof'', Str x], Str q]) env)"
proof (cases n)
  case 0
  then show ?thesis by (simp add: confined_intros)
next
  case (Suc m)
  have "confined k k (booleanBinary (tc m) (Arr [Str ''=='', Arr [Str ''typeof'', Str x], Str q]) env)"
    unfolding booleanBinary_def
    by (auto intro!: confined_intros confined_tc_atom typeof_call_untouched)
  with Suc show ?thesis
    by (simp add: tcStep_def isNumber_def isString_def isBoolean_def isBinary_def operatorToken_def
        isBooleanBinary_def)
qed

lemma consequentEnv_typeof:
  "consequentEnv (Arr [Str ''=='', Arr [Str ''typeof'', Str x], Str (CHR 0x22 # T @ [CHR 0x22])]) env
     = bnd (fromString (Str T)) (\<lambda>t. newEnv [(x, Some t)] (Some env))"
  by (simp add: consequentEnv_def isTypeCastCondition_def getSpecifiedType_def lift_def nthU_def
      first_def)

text \<open>
  C2: let the condition of an \<open>if\<close> be the equality test of \<open>(typeof x)\<close> with the
  quoted type name \<open>T\<close>, and let the check of the \<open>if\<close> in scope \<open>env\<close> succeed.
  Then the condition was checked in \<open>env\<close>; \<open>T\<close> resolved to a type \<open>ty\<close>; the
  consequent was checked in a new child scope of \<open>env\<close> whose only binding gives
  \<open>x\<close> the type \<open>ty\<close>; the alternative was checked in \<open>env\<close> itself, in a state
  where every name looked up from \<open>env\<close> has the type it had before the \<open>if\<close>; its
  result is the result of the \<open>if\<close>; and after the \<open>if\<close> every scope that existed before,
  other than \<open>env\<close> (which only the condition and the alternative are checked in), is
  as it was.
\<close>

theorem narrowing_confined_to_consequent:
  assumes cond: "condition = Arr [Str ''=='', Arr [Str ''typeof'', Str x], Str (CHR 0x22 # T @ [CHR 0x22])]"
      and env: "env < length (scopes s)"
      and ok: "tc (Suc n) (Arr [Str ''if'', condition, consequent, alternative]) env s = (Ret r, s')"
  shows "\<exists>t1 s1 ty s2 t2 s3.
           tc n condition env s = (Ret t1, s1)
         \<and> fromString (Str T) s1 = (Ret ty, s2)
         \<and> lookup (length (scopes s2)) x
              (s2\<lparr>scopes := scopes s2 @ [\<lparr>bindings = [(x, Some ty)], parent = Some env\<rparr>]\<rparr>)
             = (Ret (Some ty), s2\<lparr>scopes := scopes s2 @ [\<lparr>bindings = [(x, Some ty)], parent = Some env\<rparr>]\<rparr>)
         \<and> tc n consequent (length (scopes s2))
              (s2\<lparr>scopes := scopes s2 @ [\<lparr>bindings = [(x, Some ty)], parent = Some env\<rparr>]\<rparr>)
             = (Ret t2, s3)
         \<and> tc n alternative env s3 = (Ret r, s')
         \<and> (\<forall>y. lookupIn (scopes s3) env y = lookupIn (scopes s) env y)
         \<and> (\<forall>b<length (scopes s). b \<noteq> env \<longrightarrow> scopes s' ! b = scopes s ! b)"
proof -
  let ?k = "length (scopes s)"
  from ok have run: "tcIf (tc n) (Arr [Str ''if'', condition, consequent, alternative]) env s = (Ret r, s')"
    by (simp add: tcStep_if)
  then have chain: "bnd (tc n condition env) (\<lambda>t1.
       bnd (typeConst ''boolean'') (\<lambda>tboolean.
       bnd (expect t1 tboolean) (\<lambda>_.
       bnd (consequentEnv condition env) (\<lambda>cenv.
       bnd (tc n consequent cenv) (\<lambda>t2.
       bnd (tc n alternative env) (\<lambda>t3.
       expect t3 t2)))))) s = (Ret r, s')"
    by (simp add: tcIf_def lift_def nthU_def Let_def)
  from chain obtain t1 s1 where c1: "tc n condition env s = (Ret t1, s1)"
    and r1: "bnd (typeConst ''boolean'') (\<lambda>tboolean.
       bnd (expect t1 tboolean) (\<lambda>_.
       bnd (consequentEnv condition env) (\<lambda>cenv.
       bnd (tc n consequent cenv) (\<lambda>t2.
       bnd (tc n alternative env) (\<lambda>t3.
       expect t3 t2))))) s1 = (Ret r, s')"
    by (rule bnd_RetE)
  from r1 obtain tb sa where "typeConst ''boolean'' s1 = (Ret tb, sa)"
    and r2: "bnd (expect t1 tb) (\<lambda>_.
       bnd (consequentEnv condition env) (\<lambda>cenv.
       bnd (tc n consequent cenv) (\<lambda>t2.
       bnd (tc n alternative env) (\<lambda>t3.
       expect t3 t2)))) sa = (Ret r, s')"
    by (rule bnd_RetE)
  then have sa: "sa = s1" by (simp add: typeConst_def)
  from r2 obtain u sb where e1: "expect t1 tb sa = (Ret u, sb)"
    and r3: "bnd (consequentEnv condition env) (\<lambda>cenv.
       bnd (tc n consequent cenv) (\<lambda>t2.
       bnd (tc n alternative env) (\<lambda>t3.
       expect t3 t2))) sb = (Ret r, s')"
    by (rule bnd_RetE)
  from e1 sa have sb: "sb = s1" by (simp add: expect_state)
  from r3 obtain cenv sc where ce: "consequentEnv condition env sb = (Ret cenv, sc)"
    and r4: "bnd (tc n consequent cenv) (\<lambda>t2.
       bnd (tc n alternative env) (\<lambda>t3.
       expect t3 t2)) sc = (Ret r, s')"
    by (rule bnd_RetE)
  from ce sb have "bnd (fromString (Str T)) (\<lambda>t. newEnv [(x, Some t)] (Some env)) s1 = (Ret cenv, sc)"
    by (simp add: cond consequentEnv_typeof)
  then obtain ty s2 where fs: "fromString (Str T) s1 = (Ret ty, s2)"
    and ne: "newEnv [(x, Some ty)] (Some env) s2 = (Ret cenv, sc)"
    by (rule bnd_RetE)
  let ?sc = "s2\<lparr>scopes := scopes s2 @ [\<lparr>bindings = [(x, Some ty)], parent = Some env\<rparr>]\<rparr>"
  from ne have cenv: "cenv = length (scopes s2)" and sc: "sc = ?sc"
    by (simp_all add: newEnv_def)
  from r4 obtain t2 s3 where c2: "tc n consequent cenv sc = (Ret t2, s3)"
    and r5: "bnd (tc n alternative env) (\<lambda>t3. expect t3 t2) s3 = (Ret r, s')"
    by (rule bnd_RetE)
  from r5 obtain t3 s4 where c3: "tc n alternative env s3 = (Ret t3, s4)"
    and e2: "expect t3 t2 s4 = (Ret r, s')"
    by (rule bnd_RetE)
  from e2 have "s' = s4" and "r = t3"
    by (simp_all add: expect_state expect_Ret)
  with c3 have alt: "tc n alternative env s3 = (Ret r, s')" by simp
  have k1: "keeps ?k ?k s s1"
    using typeof_test_untouched [of ?k n x _ env] c1 by (auto simp: confined_def cond)
  have s2: "scopes s2 = scopes s1"
    using kept_fromString fs by (auto simp: scopesKept_def)
  have len2: "?k \<le> length (scopes s2)"
    using k1 s2 by (simp add: keeps_def)
  have k3: "keeps cenv ?k sc s3"
    using framed_tc [of n] c2 len2 by (auto simp: framed_def confined_def sc)
  have same: "\<forall>b<?k. scopes s3 ! b = scopes s ! b"
    using k1 k3 s2 len2 by (auto simp: keeps_def sc cenv nth_append)
  have len3: "?k \<le> length (scopes s3)"
    using k3 len2 by (simp add: keeps_def sc)
  have looks: "\<forall>y. lookupIn (scopes s3) env y = lookupIn (scopes s) env y"
    using lookupIn_agree [OF _ len3 same env] by simp
  have child: "lookup (length (scopes s2)) x ?sc = (Ret (Some ty), ?sc)"
    by (simp add: lookup_def lift_def ret_def)
  have others: "\<forall>b<?k. b \<noteq> env \<longrightarrow> scopes s' ! b = scopes s ! b"
    using tc_keeps_other_scopes [OF ok] by simp
  from c1 fs child c2 alt looks others show ?thesis
    unfolding cenv sc by blast
qed

theorem narrowing_confined_to_consequent_witness:
  "global < length (scopes nsXState)
   \<and> fst (tc (Suc 5) narrowingIf global nsXState) = Ret (Some (Prim ''number''))
   \<and> fst (tc 5 (Arr [Str ''-'', Str ''x'', Num 1]) global nsXState) = Throw OperandMismatch
   \<and> (\<exists>t1 s1 ty s2 t2 s3.
           tc 5 narrowingTest global nsXState = (Ret t1, s1)
         \<and> fromString (Str ''number'') s1 = (Ret ty, s2)
         \<and> lookup (length (scopes s2)) ''x''
              (s2\<lparr>scopes := scopes s2 @ [\<lparr>bindings = [(''x'', Some ty)], parent = Some global\<rparr>]\<rparr>)
             = (Ret (Some ty), s2\<lparr>scopes := scopes s2 @ [\<lparr>bindings = [(''x'', Some ty)], parent = Some global\<rparr>]\<rparr>)
         \<and> tc 5 (Arr [Str ''-'', Str ''x'', Num 1]) (length (scopes s2))
              (s2\<lparr>scopes := scopes s2 @ [\<lparr>bindings = [(''x'', Some ty)], parent = Some global\<rparr>]\<rparr>)
             = (Ret t2, s3)
         \<and> tc 5 (Num 0) global s3 = (Ret (Some (Prim ''number'')), snd (tc (Suc 5) narrowingIf global nsXState))
         \<and> (\<forall>y. lookupIn (scopes s3) global y = lookupIn (scopes nsXState) global y))
   \<and> lookup global ''x'' (snd (tc (Suc 5) narrowingIf global nsXState))
        = (Ret (Some nsType), snd (tc (Suc 5) narrowingIf global nsXState))"
proof -
  have env: "global < length (scopes nsXState)"
    by code_simp
  have res: "fst (tc (Suc 5) narrowingIf global nsXState) = Ret (Some (Prim ''number''))"
    by code_simp
  have plain: "fst (tc 5 (Arr [Str ''-'', Str ''x'', Num 1]) global nsXState) = Throw OperandMismatch"
    by code_simp
  have after: "lookup global ''x'' (snd (tc (Suc 5) narrowingIf global nsXState))
        = (Ret (Some nsType), snd (tc (Suc 5) narrowingIf global nsXState))"
    by code_simp
  have ok: "tc (Suc 5) (Arr [Str ''if'', narrowingTest, Arr [Str ''-'', Str ''x'', Num 1], Num 0])
              global nsXState
            = (Ret (Some (Prim ''number'')), snd (tc (Suc 5) narrowingIf global nsXState))"
    using res unfolding narrowingIf_def by (metis prod.collapse)
  have shape: "narrowingTest
      = Arr [Str ''=='', Arr [Str ''typeof'', Str ''x''], Str (CHR 0x22 # ''number'' @ [CHR 0x22])]"
    by (simp add: narrowingTest_def)
  from narrowing_confined_to_consequent [OF shape env ok]
  have "\<exists>t1 s1 ty s2 t2 s3.
           tc 5 narrowingTest global nsXState = (Ret t1, s1)
         \<and> fromString (Str ''number'') s1 = (Ret ty, s2)
         \<and> lookup (length (scopes s2)) ''x''
              (s2\<lparr>scopes := scopes s2 @ [\<lparr>bindings = [(''x'', Some ty)], parent = Some global\<rparr>]\<rparr>)
             = (Ret (Some ty), s2\<lparr>scopes := scopes s2 @ [\<lparr>bindings = [(''x'', Some ty)], parent = Some global\<rparr>]\<rparr>)
         \<and> tc 5 (Arr [Str ''-'', Str ''x'', Num 1]) (length (scopes s2))
              (s2\<lparr>scopes := scopes s2 @ [\<lparr>bindings = [(''x'', Some ty)], parent = Some global\<rparr>]\<rparr>)
             = (Ret t2, s3)
         \<and> tc 5 (Num 0) global s3 = (Ret (Some (Prim ''number'')), snd (tc (Suc 5) narrowingIf global nsXState))
         \<and> (\<forall>y. lookupIn (scopes s3) global y = lookupIn (scopes nsXState) global y)"
    by blast
  with env res plain after show ?thesis by blast
qed

end
